theory Spec2Isabelle
  imports Main "HOL-Library.AList" "HOL-Library.Word"
begin

unbundle bit_operations_syntax

section \<open>Conventions of the embedding\<close>

text \<open>
  The development embeds the orchestration core of the ludari SDK:
  \<^item> \<^verbatim>\<open>src/implementations/in-memory-storage.ts\<close> (class InMemoryStorage),
  \<^item> \<^verbatim>\<open>src/implementations/in-memory-cache.ts\<close> (class InMemoryCache),
  \<^item> \<^verbatim>\<open>dist/core/manager.js\<close> (class Manager, the compiled revision that has
    validateJobAccess, the lock metadata and the deadlock watchdog).

  Every asynchronous method is embedded as one atomic state transformer: the state goes in,
  the result and the new state come out. A thrown error (a rejected promise) is the
  \<open>Inl\<close> branch of the result. \<open>new Date()\<close> and \<open>Date.now()\<close> are the
  parameter \<open>now\<close> (milliseconds, an integer); every \<open>randomUUID()\<close> is a parameter
  holding the identifier drawn. A JavaScript \<open>Map\<close> is an association list in insertion
  order: \<open>map_of\<close> is \<open>get\<close>, \<open>AList.update\<close> is \<open>set\<close> (an existing key keeps
  its place), \<open>AList.delete\<close> is \<open>delete\<close>. An optional property \<open>p?: T\<close> is a
  field of type \<open>T option\<close>, \<open>None\<close> standing for the absent key. \<open>structuredClone\<close>
  is the identity on values. Calls to the logger are left out: they change no state of the
  manager, the storage or the cache.
\<close>

subsection \<open>Strings\<close>

text \<open>\<open>String.prototype.startsWith\<close>, and \<open>String.prototype.includes\<close> as \<open>includesStr\<close>.\<close>

fun startsWith :: "string \<Rightarrow> string \<Rightarrow> bool" where
  "startsWith s [] = True"
| "startsWith [] (p # ps) = False"
| "startsWith (c # cs) (p # ps) = (c = p \<and> startsWith cs ps)"

fun includesStr :: "string \<Rightarrow> string \<Rightarrow> bool" where
  "includesStr [] sub = (sub = [])"
| "includesStr (c # cs) sub = (startsWith (c # cs) sub \<or> includesStr cs sub)"

subsection \<open>Errors\<close>

text \<open>
  \<open>Error\<close> is the plain JavaScript error. \<open>ValidationError\<close> is a plain \<open>Error\<close> in the
  source too: the constructor records that the error was thrown by one of the validation
  routines of the Manager (validateQuerySecret, validateReplicaId, validateJobData,
  validateJobAccess) or by a check of an argument (a missing id or name). The other three
  are the classes of \<^verbatim>\<open>interfaces/storage.interface.ts\<close>: StorageError(message, code),
  NotFoundError(entity, id) and ConflictError(message).
\<close>

datatype error =
    Error string
  | ValidationError string
  | StorageError string string
  | NotFoundError string string
  | ConflictError string

fun message :: "error \<Rightarrow> string" where
  "message (Error m) = m"
| "message (ValidationError m) = m"
| "message (StorageError m c) = m"
| "message (NotFoundError entity ident) = entity @ '' with id '' @ [CHR 39] @ ident @ [CHR 39] @ '' not found''"
| "message (ConflictError m) = m"

section \<open>Core data types (types/core.ts)\<close>

text \<open>
  Field names carry a prefix per record (\<open>c_\<close> Control, \<open>j_\<close> Job, \<open>r_\<close> JobRun,
  \<open>u_\<close> UpdateControl, ...), since Isabelle record fields are global names.
\<close>

record Control =
  c_id :: string
  c_created_at :: "int option"
  c_updated_at :: "int option"
  c_enabled :: bool
  c_log_level :: "string option"
  c_replicas :: "string list"
  c_stale :: "string list"
  c_version :: string

record CreateControl =
  cc_enabled :: bool
  cc_log_level :: "string option"
  cc_replicas :: "string list"
  cc_stale :: "string list"
  cc_version :: string

text \<open>
  UpdateControl. \<open>u_isHealthCheckUpdate\<close> is the property \<open>_isHealthCheckUpdate\<close> that
  Manager.prepare adds to its patch.
\<close>

record UpdateControl =
  u_enabled :: "bool option"
  u_log_level :: "string option"
  u_replicas :: "string list option"
  u_stale :: "string list option"
  u_version :: "string option"
  u_isHealthCheckUpdate :: bool

definition emptyUpdateControl :: UpdateControl where
  "emptyUpdateControl =
     \<lparr>u_enabled = None, u_log_level = None, u_replicas = None, u_stale = None,
      u_version = None, u_isHealthCheckUpdate = False\<rparr>"

datatype JobType = INLINE | METHOD | QUERY

text \<open>
  JobContext: the keys the core reads are \<open>distributed\<close>, \<open>ttl\<close> and \<open>runOnce\<close>; every other
  key is carried in \<open>x_custom\<close> and only handed to the execution.
\<close>

record JobContext =
  x_distributed :: "bool option"
  x_ttl :: "int option"
  x_runOnce :: "bool option"
  x_custom :: "(string \<times> string) list"

record Job =
  j_id :: string
  j_created_at :: "int option"
  j_updated_at :: "int option"
  j_name :: string
  j_type :: JobType
  j_enabled :: bool
  j_context :: "JobContext option"
  j_cron :: "string option"
  j_query :: "string option"
  j_persist :: "bool option"
  j_silent :: "bool option"
  j_deleted :: "int option"

record CreateJob =
  cj_name :: string
  cj_type :: JobType
  cj_enabled :: bool
  cj_context :: "JobContext option"
  cj_cron :: "string option"
  cj_query :: "string option"
  cj_persist :: "bool option"
  cj_silent :: "bool option"

record UpdateJob =
  uj_name :: "string option"
  uj_type :: "JobType option"
  uj_enabled :: "bool option"
  uj_context :: "JobContext option"
  uj_cron :: "string option"
  uj_query :: "string option"
  uj_persist :: "bool option"
  uj_silent :: "bool option"
  uj_deleted :: "int option"

definition emptyUpdateJob :: UpdateJob where
  "emptyUpdateJob =
     \<lparr>uj_name = None, uj_type = None, uj_enabled = None, uj_context = None, uj_cron = None,
      uj_query = None, uj_persist = None, uj_silent = None, uj_deleted = None\<rparr>"

text \<open>
  A Lens frame, and the values a job run can hold as its result: \<open>RFrames fs\<close> is the
  string \<open>JSON.stringify(fs)\<close> that \<open>Lens.getFrames()\<close> returns, \<open>RLens fs\<close> a Lens
  object returned by the execution, \<open>RData truthy s\<close> any other value (its truthiness and
  a rendering of it), \<open>RUndefined\<close> the value of an execution that returns nothing.
\<close>

record Frame =
  fr_title :: string
  fr_message :: "string option"
  fr_level :: "string option"

datatype RunResult = RUndefined | RData bool string | RLens "Frame list" | RFrames "Frame list"

record JobRun =
  r_id :: string
  r_created_at :: "int option"
  r_updated_at :: "int option"
  r_job_id :: string
  r_result :: "RunResult option"
  r_started :: int
  r_completed :: "int option"
  r_failed :: "int option"

record CreateJobRun =
  cr_job_id :: string
  cr_result :: "RunResult option"
  cr_started :: int

record UpdateJobRun =
  ur_result :: "RunResult option"
  ur_completed :: "int option"
  ur_failed :: "int option"

datatype DeletedFilter = DeletedNull | DeletedNotNull

record JobFilter =
  f_name :: "string option"
  f_type :: "JobType option"
  f_enabled :: "bool option"
  f_deleted :: "DeletedFilter option"
  f_page :: "int option"
  f_page_size :: "int option"

definition emptyJobFilter :: JobFilter where
  "emptyJobFilter =
     \<lparr>f_name = None, f_type = None, f_enabled = None, f_deleted = None, f_page = None,
      f_page_size = None\<rparr>"

text \<open>
  The numbers of a Pagination. The page arithmetic of findJobs divides by the page size,
  and \<open>0 / 0\<close> is \<open>NaN\<close> in JavaScript; \<open>jsnum\<close> is an integer or \<open>NaN\<close>. The filter's
  \<open>page\<close> and \<open>page_size\<close> are integers in this embedding.
\<close>

datatype jsnum = Num int | NaN

record 'a PaginatedResponse =
  p_data :: "'a list"
  p_total :: int
  p_last_page :: jsnum
  p_current_page :: jsnum
  p_next_page :: "jsnum option"
  p_previous_page :: "jsnum option"
  p_page_size :: int

record JobRunFilter =
  rf_job_id :: "string option"
  rf_started_after :: "int option"
  rf_started_before :: "int option"
  rf_status :: "string option"
  rf_page :: "int option"
  rf_page_size :: "int option"

subsection \<open>JavaScript numbers and Array.prototype.slice\<close>

definition numOp2 :: "(int \<Rightarrow> int \<Rightarrow> int) \<Rightarrow> jsnum \<Rightarrow> jsnum \<Rightarrow> jsnum" where
  "numOp2 f a b = (case a of NaN \<Rightarrow> NaN | Num x \<Rightarrow> (case b of NaN \<Rightarrow> NaN | Num y \<Rightarrow> Num (f x y)))"

definition numLt :: "jsnum \<Rightarrow> jsnum \<Rightarrow> bool" where
  "numLt a b = (case a of NaN \<Rightarrow> False | Num x \<Rightarrow> (case b of NaN \<Rightarrow> False | Num y \<Rightarrow> x < y))"

text \<open>\<open>Math.ceil(a / b)\<close> on integers: \<open>0 / 0\<close> is \<open>NaN\<close>. The callers divide by zero only
  when the dividend is zero too (the page size defaults to the total).\<close>

definition ceilDiv :: "int \<Rightarrow> int \<Rightarrow> jsnum" where
  "ceilDiv a b = (if b = 0 then NaN else Num (- ((- a) div b)))"

text \<open>The integer an index argument of \<open>slice\<close> is read as: \<open>NaN\<close> counts as 0.\<close>

definition toIntegerOrZero :: "jsnum \<Rightarrow> int" where
  "toIntegerOrZero a = (case a of NaN \<Rightarrow> 0 | Num x \<Rightarrow> x)"

definition relIndex :: "int \<Rightarrow> int \<Rightarrow> int" where
  "relIndex len i = (if i < 0 then max (len + i) 0 else min i len)"

definition slice :: "'a list \<Rightarrow> jsnum \<Rightarrow> jsnum \<Rightarrow> 'a list" where
  "slice xs start fin =
     (let len = int (length xs);
          k = relIndex len (toIntegerOrZero start);
          e = relIndex len (toIntegerOrZero fin)
      in if k < e then take (nat (e - k)) (drop (nat k) xs) else [])"

section \<open>InMemoryStorage (implementations/in-memory-storage.ts)\<close>

definition WATCH_JOB_NAME :: string where
  "WATCH_JOB_NAME = ''__watch__''"

text \<open>
  The four maps of the class, and one field the class does not have: \<open>jobRunWrites\<close> lists,
  oldest first, the calls of createJobRun and updateJobRun that went through, so that the
  number of times a JobRun was written can be stated.
\<close>

datatype JobRunWrite = Created string | Updated string UpdateJobRun

record InMemoryStorage =
  controls :: "(string \<times> Control) list"
  jobs :: "(string \<times> Job) list"
  jobsByName :: "(string \<times> string) list"
  jobRuns :: "(string \<times> JobRun) list"
  jobRunWrites :: "JobRunWrite list"

definition emptyStorage :: InMemoryStorage where
  "emptyStorage = \<lparr>controls = [], jobs = [], jobsByName = [], jobRuns = [], jobRunWrites = []\<rparr>"

text \<open>getControl: the first value of the map, or null.\<close>

definition getControl :: "InMemoryStorage \<Rightarrow> Control option" where
  "getControl s = (case controls s of [] \<Rightarrow> None | kc # rest \<Rightarrow> Some (snd kc))"

definition createControl ::
  "string \<Rightarrow> int \<Rightarrow> CreateControl \<Rightarrow> InMemoryStorage \<Rightarrow> (error + Control) \<times> InMemoryStorage" where
  "createControl uuid now d s =
     (if length (controls s) > 0 then (Inl (ConflictError ''Control record already exists''), s)
      else
        let control = \<lparr>c_id = uuid, c_created_at = Some now, c_updated_at = Some now,
                         c_enabled = cc_enabled d, c_log_level = cc_log_level d,
                         c_replicas = cc_replicas d, c_stale = cc_stale d,
                         c_version = cc_version d\<rparr>
        in (Inr control, s\<lparr>controls := AList.update (c_id control) control (controls s)\<rparr>))"

text \<open>\<open>{...existing, ...data, updated_at: new Date()}\<close> for a Control.\<close>

definition spreadControl :: "Control \<Rightarrow> UpdateControl \<Rightarrow> int \<Rightarrow> Control" where
  "spreadControl existing d now =
     existing\<lparr>c_enabled := (case u_enabled d of None \<Rightarrow> c_enabled existing | Some b \<Rightarrow> b),
              c_log_level := (case u_log_level d of None \<Rightarrow> c_log_level existing | Some l \<Rightarrow> Some l),
              c_replicas := (case u_replicas d of None \<Rightarrow> c_replicas existing | Some r \<Rightarrow> r),
              c_stale := (case u_stale d of None \<Rightarrow> c_stale existing | Some r \<Rightarrow> r),
              c_version := (case u_version d of None \<Rightarrow> c_version existing | Some v \<Rightarrow> v),
              c_updated_at := Some now\<rparr>"

definition versionMismatch :: "string \<Rightarrow> string \<Rightarrow> error" where
  "versionMismatch expected got =
     ConflictError (''Control version mismatch. Expected '' @ [CHR 39] @ expected @ [CHR 39]
                    @ '', got '' @ [CHR 39] @ got @ [CHR 39])"

definition updateControl ::
  "int \<Rightarrow> string \<Rightarrow> UpdateControl \<Rightarrow> InMemoryStorage \<Rightarrow> (error + Control) \<times> InMemoryStorage" where
  "updateControl now ident d s =
     (case map_of (controls s) ident of
        None \<Rightarrow> (Inl (NotFoundError ''Control'' ident), s)
      | Some existing \<Rightarrow>
          (case u_version d of
             Some v \<Rightarrow>
               if c_version existing \<noteq> v then (Inl (versionMismatch (c_version existing) v), s)
               else
                 let updated = spreadControl existing d now
                 in (Inr updated, s\<lparr>controls := AList.update ident updated (controls s)\<rparr>)
           | None \<Rightarrow>
               let updated = spreadControl existing d now
               in (Inr updated, s\<lparr>controls := AList.update ident updated (controls s)\<rparr>)))"

text \<open>
  The pagination block of findJobs (lines 127-143), which findJobRuns repeats:
  \<open>page = filter?.page || 1\<close>, \<open>pageSize = filter?.page_size || total\<close>,
  \<open>lastPage = Math.ceil(total / pageSize)\<close>,
  \<open>currentPage = Math.min(Math.max(1, page), lastPage)\<close>.
\<close>

definition orElse :: "int option \<Rightarrow> int \<Rightarrow> int" where
  "orElse v d = (case v of None \<Rightarrow> d | Some x \<Rightarrow> if x = 0 then d else x)"

definition paginate :: "'a list \<Rightarrow> int option \<Rightarrow> int option \<Rightarrow> 'a PaginatedResponse" where
  "paginate xs fpage fpage_size =
     (let total = int (length xs);
          page = orElse fpage 1;
          pageSize = orElse fpage_size total;
          lastPage = ceilDiv total pageSize;
          currentPage = numOp2 min (Num (max 1 page)) lastPage;
          startIndex = numOp2 (*) (numOp2 (-) currentPage (Num 1)) (Num pageSize);
          endIndex = numOp2 (+) startIndex (Num pageSize)
      in \<lparr>p_data = slice xs startIndex endIndex,
          p_total = total,
          p_last_page = lastPage,
          p_current_page = currentPage,
          p_next_page = (if numLt currentPage lastPage then Some (numOp2 (+) currentPage (Num 1)) else None),
          p_previous_page = (if numLt (Num 1) currentPage then Some (numOp2 (-) currentPage (Num 1)) else None),
          p_page_size = pageSize\<rparr>)"

text \<open>The predicate of the filter callback of findJobs (lines 117-124).\<close>

definition jobMatches :: "JobFilter \<Rightarrow> Job \<Rightarrow> bool" where
  "jobMatches f job =
     (if (case f_name f of None \<Rightarrow> False | Some n \<Rightarrow> n \<noteq> [] \<and> j_name job \<noteq> n) then False
      else if (case f_type f of None \<Rightarrow> False | Some t \<Rightarrow> j_type job \<noteq> t) then False
      else if (case f_enabled f of None \<Rightarrow> False | Some e \<Rightarrow> j_enabled job \<noteq> e) then False
      else if f_deleted f = Some DeletedNotNull \<and> j_deleted job = None then False
      else if f_deleted f = Some DeletedNull \<and> j_deleted job \<noteq> None then False
      else True)"

definition findJobs :: "JobFilter option \<Rightarrow> InMemoryStorage \<Rightarrow> Job PaginatedResponse" where
  "findJobs flt s =
     (let all = map snd (jobs s);
          unwatched = filter (\<lambda>job. j_name job \<noteq> WATCH_JOB_NAME) all;
          matching = (case flt of None \<Rightarrow> unwatched | Some f \<Rightarrow> filter (jobMatches f) unwatched)
      in paginate matching
           (case flt of None \<Rightarrow> None | Some f \<Rightarrow> f_page f)
           (case flt of None \<Rightarrow> None | Some f \<Rightarrow> f_page_size f))"

text \<open>findJob (lines 152-161) and findJobByName (lines 163-174): null for a tombstoned job;
  \<open>if (!id) return null\<close> also catches an empty id in the index.\<close>

definition findJob :: "string \<Rightarrow> InMemoryStorage \<Rightarrow> Job option" where
  "findJob ident s =
     (case map_of (jobs s) ident of
        None \<Rightarrow> None
      | Some job \<Rightarrow> if j_deleted job \<noteq> None then None else Some job)"

definition findJobByName :: "string \<Rightarrow> InMemoryStorage \<Rightarrow> Job option" where
  "findJobByName name s =
     (case map_of (jobsByName s) name of
        None \<Rightarrow> None
      | Some ident \<Rightarrow>
          if ident = [] then None
          else (case map_of (jobs s) ident of
                  None \<Rightarrow> None
                | Some job \<Rightarrow> if j_deleted job \<noteq> None then None else Some job))"

text \<open>createJob (lines 176-194).\<close>

definition jobExistsMessage :: "string \<Rightarrow> string" where
  "jobExistsMessage name = ''Job with name '' @ [CHR 39] @ name @ [CHR 39] @ '' already exists''"

definition createJob ::
  "string \<Rightarrow> int \<Rightarrow> CreateJob \<Rightarrow> InMemoryStorage \<Rightarrow> (error + Job) \<times> InMemoryStorage" where
  "createJob uuid now d s =
     (if map_of (jobsByName s) (cj_name d) \<noteq> None
      then (Inl (ConflictError (jobExistsMessage (cj_name d))), s)
      else
        let job = \<lparr>j_id = uuid, j_created_at = Some now, j_updated_at = Some now,
                     j_name = cj_name d, j_type = cj_type d, j_enabled = cj_enabled d,
                     j_context = cj_context d, j_cron = cj_cron d, j_query = cj_query d,
                     j_persist = cj_persist d, j_silent = cj_silent d, j_deleted = None\<rparr>
        in (Inr job, s\<lparr>jobs := AList.update (j_id job) job (jobs s),
                        jobsByName := AList.update (j_name job) (j_id job) (jobsByName s)\<rparr>))"

text \<open>\<open>{...existing, ...data, updated_at: new Date()}\<close> for a Job.\<close>

definition orKeep :: "'a option \<Rightarrow> 'a option \<Rightarrow> 'a option" where
  "orKeep new old = (case new of None \<Rightarrow> old | Some v \<Rightarrow> Some v)"

definition spreadJob :: "Job \<Rightarrow> UpdateJob \<Rightarrow> int \<Rightarrow> Job" where
  "spreadJob existing d now =
     existing\<lparr>j_name := (case uj_name d of None \<Rightarrow> j_name existing | Some n \<Rightarrow> n),
              j_type := (case uj_type d of None \<Rightarrow> j_type existing | Some t \<Rightarrow> t),
              j_enabled := (case uj_enabled d of None \<Rightarrow> j_enabled existing | Some e \<Rightarrow> e),
              j_context := orKeep (uj_context d) (j_context existing),
              j_cron := orKeep (uj_cron d) (j_cron existing),
              j_query := orKeep (uj_query d) (j_query existing),
              j_persist := orKeep (uj_persist d) (j_persist existing),
              j_silent := orKeep (uj_silent d) (j_silent existing),
              j_deleted := orKeep (uj_deleted d) (j_deleted existing),
              j_updated_at := Some now\<rparr>"

text \<open>updateJob (lines 196-221). \<open>renames\<close> is the test
  \<open>data.name && data.name !== existing.name\<close>.\<close>

definition renames :: "UpdateJob \<Rightarrow> Job \<Rightarrow> bool" where
  "renames d existing = (case uj_name d of None \<Rightarrow> False | Some n \<Rightarrow> n \<noteq> [] \<and> n \<noteq> j_name existing)"

definition updateJob ::
  "int \<Rightarrow> string \<Rightarrow> UpdateJob \<Rightarrow> InMemoryStorage \<Rightarrow> (error + Job) \<times> InMemoryStorage" where
  "updateJob now ident d s =
     (case map_of (jobs s) ident of
        None \<Rightarrow> (Inl (NotFoundError ''Job'' ident), s)
      | Some existing \<Rightarrow>
          if renames d existing \<and> map_of (jobsByName s) (the (uj_name d)) \<noteq> None
          then (Inl (ConflictError (jobExistsMessage (the (uj_name d)))), s)
          else
            let updated = spreadJob existing d now;
                byName = (if renames d existing
                          then AList.update (j_name updated) ident (AList.delete (j_name existing) (jobsByName s))
                          else jobsByName s)
            in (Inr updated, s\<lparr>jobsByName := byName, jobs := AList.update ident updated (jobs s)\<rparr>))"

text \<open>deleteJob (lines 223-238): the soft delete.\<close>

definition deleteJob :: "int \<Rightarrow> string \<Rightarrow> InMemoryStorage \<Rightarrow> (error + unit) \<times> InMemoryStorage" where
  "deleteJob now ident s =
     (case map_of (jobs s) ident of
        None \<Rightarrow> (Inl (NotFoundError ''Job'' ident), s)
      | Some existing \<Rightarrow>
          (Inr (), s\<lparr>jobs := AList.update ident (existing\<lparr>j_deleted := Some now, j_updated_at := Some now\<rparr>) (jobs s)\<rparr>))"

text \<open>createJobRun (lines 240-261) and updateJobRun (lines 263-279).\<close>

definition createJobRun ::
  "string \<Rightarrow> int \<Rightarrow> CreateJobRun \<Rightarrow> InMemoryStorage \<Rightarrow> (error + JobRun) \<times> InMemoryStorage" where
  "createJobRun uuid now d s =
     (if map_of (jobs s) (cr_job_id d) = None
      then (Inl (StorageError (''Cannot create job run: Job '' @ [CHR 39] @ cr_job_id d @ [CHR 39] @ '' not found'')
                   ''INVALID_REFERENCE''), s)
      else
        let jobRun = \<lparr>r_id = uuid, r_created_at = Some now, r_updated_at = Some now,
                        r_job_id = cr_job_id d, r_result = cr_result d, r_started = cr_started d,
                        r_completed = None, r_failed = None\<rparr>
        in (Inr jobRun, s\<lparr>jobRuns := AList.update (r_id jobRun) jobRun (jobRuns s),
                           jobRunWrites := jobRunWrites s @ [Created (r_id jobRun)]\<rparr>))"

definition spreadJobRun :: "JobRun \<Rightarrow> UpdateJobRun \<Rightarrow> int \<Rightarrow> JobRun" where
  "spreadJobRun existing d now =
     existing\<lparr>r_result := orKeep (ur_result d) (r_result existing),
              r_completed := orKeep (ur_completed d) (r_completed existing),
              r_failed := orKeep (ur_failed d) (r_failed existing),
              r_updated_at := Some now\<rparr>"

definition updateJobRun ::
  "int \<Rightarrow> string \<Rightarrow> UpdateJobRun \<Rightarrow> InMemoryStorage \<Rightarrow> (error + JobRun) \<times> InMemoryStorage" where
  "updateJobRun now ident d s =
     (case map_of (jobRuns s) ident of
        None \<Rightarrow> (Inl (NotFoundError ''JobRun'' ident), s)
      | Some existing \<Rightarrow>
          let updated = spreadJobRun existing d now
          in (Inr updated, s\<lparr>jobRuns := AList.update ident updated (jobRuns s),
                            jobRunWrites := jobRunWrites s @ [Updated ident d]\<rparr>))"

text \<open>findJobRuns (lines 281-319).\<close>

definition jobRunMatches :: "JobRunFilter \<Rightarrow> JobRun \<Rightarrow> bool" where
  "jobRunMatches f run =
     (if (case rf_job_id f of None \<Rightarrow> False | Some j \<Rightarrow> j \<noteq> [] \<and> r_job_id run \<noteq> j) then False
      else if (case rf_started_after f of None \<Rightarrow> False | Some t \<Rightarrow> r_started run \<le> t) then False
      else if (case rf_started_before f of None \<Rightarrow> False | Some t \<Rightarrow> r_started run \<ge> t) then False
      else if rf_status f = Some ''completed'' \<and> r_completed run = None then False
      else if rf_status f = Some ''failed'' \<and> r_failed run = None then False
      else if rf_status f = Some ''running'' \<and> (r_completed run \<noteq> None \<or> r_failed run \<noteq> None) then False
      else True)"

definition findJobRuns :: "JobRunFilter option \<Rightarrow> InMemoryStorage \<Rightarrow> JobRun PaginatedResponse" where
  "findJobRuns flt s =
     (let runs = map snd (jobRuns s);
          matching = (case flt of None \<Rightarrow> runs | Some f \<Rightarrow> filter (jobRunMatches f) runs)
      in paginate matching
           (case flt of None \<Rightarrow> None | Some f \<Rightarrow> rf_page f)
           (case flt of None \<Rightarrow> None | Some f \<Rightarrow> rf_page_size f))"

text \<open>executeQuery (lines 321-323) always throws.\<close>

definition executeQuery :: "string \<Rightarrow> error + RunResult" where
  "executeQuery sql = Inl (StorageError ''executeQuery not supported by InMemoryStorage'' ''NOT_SUPPORTED'')"

section \<open>InMemoryCache (implementations/in-memory-cache.ts)\<close>

text \<open>
  The cache keeps its locks, contexts and replicas in maps and arms a \<open>setTimeout\<close> for
  each entry with a TTL. The pending timeouts of the runtime are part of the state here:
  \<open>timers\<close> maps a timeout id to its due time and to what its callback deletes. A
  pending timeout runs when the event loop gets to it, at its due time or later
  (\<open>fireTimer\<close>); \<open>clearTimeout\<close> removes it. Node's \<open>setTimeout\<close> replaces a delay
  below 1 or above 2147483647 by 1 (\<open>clampDelay\<close>).

  The batch counters, deleteJobContext, getActiveReplicas, getStats and isHealthy are not
  embedded; no claim nor the Manager's code below reads them.
\<close>

datatype TimerAction = ExpireLock string | ExpireContext string | ExpireReplica string

record Timer =
  t_due :: int
  t_action :: TimerAction

record LockData =
  ld_value :: string
  ld_expiresAt :: int
  ld_timeoutId :: nat

record ContextData =
  cd_value :: JobContext
  cd_expiresAt :: "int option"
  cd_timeoutId :: "nat option"

record ReplicaData =
  rd_registeredAt :: int
  rd_expiresAt :: "int option"
  rd_timeoutId :: "nat option"

record InMemoryCache =
  locks :: "(string \<times> LockData) list"
  contexts :: "(string \<times> ContextData) list"
  replicas :: "(string \<times> ReplicaData) list"
  timers :: "(nat \<times> Timer) list"
  nextTimeoutId :: nat
  cleanupInterval :: bool
  isDestroyed :: bool

text \<open>\<open>new InMemoryCache(options)\<close>: the cleanup interval is set unless disableCleanup.\<close>

definition newInMemoryCache :: "bool \<Rightarrow> InMemoryCache" where
  "newInMemoryCache disableCleanup =
     \<lparr>locks = [], contexts = [], replicas = [], timers = [], nextTimeoutId = 0,
      cleanupInterval = (\<not> disableCleanup), isDestroyed = False\<rparr>"

record LockOptions =
  lo_ttlMs :: int
  lo_value :: "string option"

record LockResult =
  acquired :: bool
  lockValue :: "string option"
  expiresAt :: "int option"

definition notAcquired :: LockResult where
  "notAcquired = \<lparr>acquired = False, lockValue = None, expiresAt = None\<rparr>"

definition clampDelay :: "int \<Rightarrow> int" where
  "clampDelay d = (if d < 1 \<or> d > 2147483647 then 1 else d)"

definition setTimeout :: "TimerAction \<Rightarrow> int \<Rightarrow> int \<Rightarrow> InMemoryCache \<Rightarrow> nat \<times> InMemoryCache" where
  "setTimeout action delay now c =
     (nextTimeoutId c,
      c\<lparr>timers := timers c @ [(nextTimeoutId c, \<lparr>t_due = now + clampDelay delay, t_action = action\<rparr>)],
        nextTimeoutId := Suc (nextTimeoutId c)\<rparr>)"

definition clearTimeout :: "nat \<Rightarrow> InMemoryCache \<Rightarrow> InMemoryCache" where
  "clearTimeout tid c = c\<lparr>timers := AList.delete tid (timers c)\<rparr>"

text \<open>The callbacks handed to \<open>setTimeout\<close>: each deletes the entry stored at its key.\<close>

fun runTimerAction :: "TimerAction \<Rightarrow> InMemoryCache \<Rightarrow> InMemoryCache" where
  "runTimerAction (ExpireLock k) c = c\<lparr>locks := AList.delete k (locks c)\<rparr>"
| "runTimerAction (ExpireContext k) c = c\<lparr>contexts := AList.delete k (contexts c)\<rparr>"
| "runTimerAction (ExpireReplica k) c = c\<lparr>replicas := AList.delete k (replicas c)\<rparr>"

text \<open>The event loop running the callback of timeout \<open>tid\<close> at time \<open>now\<close>: nothing
  happens when the timeout is not pending or not yet due.\<close>

definition fireTimer :: "nat \<Rightarrow> int \<Rightarrow> InMemoryCache \<Rightarrow> InMemoryCache" where
  "fireTimer tid now c =
     (case map_of (timers c) tid of
        None \<Rightarrow> c
      | Some t \<Rightarrow> if t_due t \<le> now then runTimerAction (t_action t) (clearTimeout tid c) else c)"

text \<open>
  acquireLock (lines 125-167). \<open>withLock\<close> throws on a destroyed cache and the method's
  \<open>catch\<close> turns that into \<open>{acquired: false}\<close>. \<open>uuid\<close> is what \<open>randomUUID()\<close> would
  return.
\<close>

definition acquireLock ::
  "string \<Rightarrow> LockOptions \<Rightarrow> string \<Rightarrow> int \<Rightarrow> InMemoryCache \<Rightarrow> LockResult \<times> InMemoryCache" where
  "acquireLock k options uuid now c =
     (if isDestroyed c then (notAcquired, c)
      else if (case map_of (locks c) k of None \<Rightarrow> False | Some existing \<Rightarrow> ld_expiresAt existing > now)
      then (notAcquired, c)
      else
        let lv = (case lo_value options of None \<Rightarrow> uuid | Some v \<Rightarrow> v);
            exp = now + lo_ttlMs options;
            (timeoutId, c1) = setTimeout (ExpireLock k) (lo_ttlMs options) now c
        in (\<lparr>acquired = True, lockValue = Some lv, expiresAt = Some exp\<rparr>,
            c1\<lparr>locks := AList.update k \<lparr>ld_value = lv, ld_expiresAt = exp, ld_timeoutId = timeoutId\<rparr> (locks c1)\<rparr>))"

text \<open>releaseLock (lines 169-191).\<close>

definition releaseLock :: "string \<Rightarrow> string \<Rightarrow> InMemoryCache \<Rightarrow> bool \<times> InMemoryCache" where
  "releaseLock k lv c =
     (if isDestroyed c then (False, c)
      else
        (case map_of (locks c) k of
           None \<Rightarrow> (False, c)
         | Some existing \<Rightarrow>
             if ld_value existing \<noteq> lv then (False, c)
             else
               let c1 = clearTimeout (ld_timeoutId existing) c
               in (True, c1\<lparr>locks := AList.delete k (locks c1)\<rparr>)))"

text \<open>extendLock (lines 193-231).\<close>

definition extendLock :: "string \<Rightarrow> string \<Rightarrow> int \<Rightarrow> int \<Rightarrow> InMemoryCache \<Rightarrow> bool \<times> InMemoryCache" where
  "extendLock k lv ttlMs now c =
     (if isDestroyed c then (False, c)
      else
        (case map_of (locks c) k of
           None \<Rightarrow> (False, c)
         | Some existing \<Rightarrow>
             if ld_value existing \<noteq> lv then (False, c)
             else
               let c1 = clearTimeout (ld_timeoutId existing) c;
                   exp = now + ttlMs;
                   (timeoutId, c2) = setTimeout (ExpireLock k) ttlMs now c1
               in (True, c2\<lparr>locks := AList.update k \<lparr>ld_value = lv, ld_expiresAt = exp, ld_timeoutId = timeoutId\<rparr> (locks c2)\<rparr>)))"

text \<open>setJobContext (lines 237-280) and getJobContext (lines 282-309).\<close>

definition clearTimeoutOpt :: "nat option \<Rightarrow> InMemoryCache \<Rightarrow> InMemoryCache" where
  "clearTimeoutOpt t c = (case t of None \<Rightarrow> c | Some tid \<Rightarrow> clearTimeout tid c)"

definition contextKey :: "string \<Rightarrow> string" where
  "contextKey jobName = ''context:'' @ jobName"

definition setJobContext :: "string \<Rightarrow> JobContext \<Rightarrow> int option \<Rightarrow> int \<Rightarrow> InMemoryCache \<Rightarrow> InMemoryCache" where
  "setJobContext jobName ctx ttlMs now c =
     (if isDestroyed c then c
      else
        let k = contextKey jobName;
            c1 = (case map_of (contexts c) k of None \<Rightarrow> c | Some existing \<Rightarrow> clearTimeoutOpt (cd_timeoutId existing) c)
        in (case ttlMs of
              None \<Rightarrow> c1\<lparr>contexts := AList.update k \<lparr>cd_value = ctx, cd_expiresAt = None, cd_timeoutId = None\<rparr> (contexts c1)\<rparr>
            | Some ttl \<Rightarrow>
                if ttl = 0
                then c1\<lparr>contexts := AList.update k \<lparr>cd_value = ctx, cd_expiresAt = None, cd_timeoutId = None\<rparr> (contexts c1)\<rparr>
                else
                  let (timeoutId, c2) = setTimeout (ExpireContext k) ttl now c1
                  in c2\<lparr>contexts := AList.update k
                          \<lparr>cd_value = ctx, cd_expiresAt = Some (now + ttl), cd_timeoutId = Some timeoutId\<rparr> (contexts c2)\<rparr>))"

definition getJobContext :: "string \<Rightarrow> int \<Rightarrow> InMemoryCache \<Rightarrow> JobContext option \<times> InMemoryCache" where
  "getJobContext jobName now c =
     (if isDestroyed c then (None, c)
      else
        let k = contextKey jobName
        in (case map_of (contexts c) k of
              None \<Rightarrow> (None, c)
            | Some d \<Rightarrow>
                if (case cd_expiresAt d of None \<Rightarrow> False | Some e \<Rightarrow> e \<le> now)
                then (let c1 = clearTimeoutOpt (cd_timeoutId d) c
                      in (None, c1\<lparr>contexts := AList.delete k (contexts c1)\<rparr>))
                else (Some (cd_value d), c)))"

text \<open>
  performCleanup (lines 409-451): every expired entry has its timeout cleared and is
  deleted. It throws on a destroyed cache; \<open>cleanup\<close> (lines 396-404) swallows that.
\<close>

definition expiredOpt :: "int option \<Rightarrow> int \<Rightarrow> bool" where
  "expiredOpt e now = (case e of None \<Rightarrow> False | Some x \<Rightarrow> x \<le> now)"

definition cleanLock :: "int \<Rightarrow> string \<times> LockData \<Rightarrow> InMemoryCache \<Rightarrow> InMemoryCache" where
  "cleanLock now kl c =
     (if ld_expiresAt (snd kl) \<le> now
      then (let c1 = clearTimeout (ld_timeoutId (snd kl)) c in c1\<lparr>locks := AList.delete (fst kl) (locks c1)\<rparr>)
      else c)"

definition cleanContext :: "int \<Rightarrow> string \<times> ContextData \<Rightarrow> InMemoryCache \<Rightarrow> InMemoryCache" where
  "cleanContext now kd c =
     (if expiredOpt (cd_expiresAt (snd kd)) now
      then (let c1 = clearTimeoutOpt (cd_timeoutId (snd kd)) c in c1\<lparr>contexts := AList.delete (fst kd) (contexts c1)\<rparr>)
      else c)"

definition cleanReplica :: "int \<Rightarrow> string \<times> ReplicaData \<Rightarrow> InMemoryCache \<Rightarrow> InMemoryCache" where
  "cleanReplica now kr c =
     (if expiredOpt (rd_expiresAt (snd kr)) now
      then (let c1 = clearTimeoutOpt (rd_timeoutId (snd kr)) c in c1\<lparr>replicas := AList.delete (fst kr) (replicas c1)\<rparr>)
      else c)"

definition performCleanup :: "int \<Rightarrow> InMemoryCache \<Rightarrow> (error + unit) \<times> InMemoryCache" where
  "performCleanup now c =
     (if isDestroyed c then (Inl (Error ''Cache has been destroyed''), c)
      else
        let c1 = fold (cleanLock now) (locks c) c;
            c2 = fold (cleanContext now) (contexts c1) c1;
            c3 = fold (cleanReplica now) (replicas c2) c2
        in (Inr (), c3))"

definition cleanup :: "int \<Rightarrow> InMemoryCache \<Rightarrow> InMemoryCache" where
  "cleanup now c = snd (performCleanup now c)"

text \<open>registerReplica (lines 457-490) and pingReplica (lines 492-519).\<close>

definition registerReplica :: "string \<Rightarrow> int \<Rightarrow> int \<Rightarrow> InMemoryCache \<Rightarrow> InMemoryCache" where
  "registerReplica replicaId ttlMs now c =
     (if isDestroyed c then c
      else
        let c1 = (case map_of (replicas c) replicaId of None \<Rightarrow> c | Some existing \<Rightarrow> clearTimeoutOpt (rd_timeoutId existing) c);
            (timeoutId, c2) = setTimeout (ExpireReplica replicaId) ttlMs now c1
        in c2\<lparr>replicas := AList.update replicaId
                \<lparr>rd_registeredAt = now, rd_expiresAt = Some (now + ttlMs), rd_timeoutId = Some timeoutId\<rparr> (replicas c2)\<rparr>)"

definition pingReplica :: "string \<Rightarrow> int \<Rightarrow> InMemoryCache \<Rightarrow> bool \<times> InMemoryCache" where
  "pingReplica replicaId now c =
     (if isDestroyed c then (False, c)
      else
        (case map_of (replicas c) replicaId of
           None \<Rightarrow> (False, c)
         | Some r \<Rightarrow>
             if expiredOpt (rd_expiresAt r) now
             then (let c1 = clearTimeoutOpt (rd_timeoutId r) c
                   in (False, c1\<lparr>replicas := AList.delete replicaId (replicas c1)\<rparr>))
             else (True, c)))"

text \<open>
  destroy (lines 557-630) in two steps, split at its \<open>await this.lockPromise\<close>:
  \<open>destroyBegin\<close> sets the flag and clears the cleanup interval; \<open>destroyFinish\<close>, which
  runs once the pending operations are done, clears the timeouts and the maps. Other
  calls can run between the two.
\<close>

definition destroyBegin :: "InMemoryCache \<Rightarrow> InMemoryCache" where
  "destroyBegin c = c\<lparr>isDestroyed := True, cleanupInterval := False\<rparr>"

definition destroyFinish :: "InMemoryCache \<Rightarrow> InMemoryCache" where
  "destroyFinish c =
     (let c1 = fold (\<lambda>kl. clearTimeout (ld_timeoutId (snd kl))) (locks c) c;
          c2 = fold (\<lambda>kd. clearTimeoutOpt (cd_timeoutId (snd kd))) (contexts c1) (c1\<lparr>locks := []\<rparr>);
          c3 = fold (\<lambda>kr. clearTimeoutOpt (rd_timeoutId (snd kr))) (replicas c2) (c2\<lparr>contexts := []\<rparr>)
      in c3\<lparr>replicas := []\<rparr>)"

definition destroyCache :: "InMemoryCache \<Rightarrow> InMemoryCache" where
  "destroyCache c = (if isDestroyed c then c else destroyFinish (destroyBegin c))"

section \<open>Manager (dist/core/manager.js)\<close>

text \<open>
  The Manager works on a Storage and a Cache handed to its constructor. The storage is the
  InMemoryStorage above. The cache is any implementation of the Cache interface: a record
  of its methods over a cache state \<open>'c\<close>, each of which may also reject (\<open>Inl\<close>);
  \<open>pingReplica\<close>, \<open>destroy\<close> and \<open>cleanup\<close> are optional methods. The host's job handler is
  only known to be there or not (\<open>m_hasHandler\<close>); the inline handlers are known by name.
  A CronJob is the job it was created for; \<open>cronValid\<close> says which cron expressions the
  cron library's constructor accepts.

  One call of a method reads one clock value, \<open>e_now\<close>. The identifiers and random bytes a
  call draws are the other fields of \<open>Env\<close>: \<open>e_controlId\<close>, \<open>e_jobId\<close> and \<open>e_runId\<close> for
  the rows the storage creates, \<open>e_version\<close> for the Manager's own \<open>randomUUID()\<close>,
  \<open>e_iv\<close> and \<open>e_salt\<close> for \<open>randomBytes(16)\<close> and \<open>randomBytes(32)\<close>.
\<close>

type_synonym byte = "8 word"

record Env =
  e_now :: int
  e_controlId :: string
  e_jobId :: string
  e_runId :: string
  e_version :: string
  e_iv :: "byte list"
  e_salt :: "byte list"

record 'c Cache =
  cache_acquireLock :: "string \<Rightarrow> int \<Rightarrow> 'c \<Rightarrow> (error + LockResult) \<times> 'c"
  cache_releaseLock :: "string \<Rightarrow> string \<Rightarrow> 'c \<Rightarrow> (error + bool) \<times> 'c"
  cache_getJobContext :: "string \<Rightarrow> 'c \<Rightarrow> (error + JobContext option) \<times> 'c"
  cache_setJobContext :: "string \<Rightarrow> JobContext \<Rightarrow> 'c \<Rightarrow> (error + unit) \<times> 'c"
  cache_pingReplica :: "(string \<Rightarrow> 'c \<Rightarrow> (error + bool) \<times> 'c) option"
  cache_destroy :: "('c \<Rightarrow> (error + unit) \<times> 'c) option"
  cache_cleanup :: "('c \<Rightarrow> (error + unit) \<times> 'c) option"

text \<open>The InMemoryCache as a Cache, at clock value \<open>now\<close> and with \<open>uuid\<close> for the lock
  value it draws. None of its methods rejects.\<close>

definition inMemoryCache :: "string \<Rightarrow> int \<Rightarrow> InMemoryCache Cache" where
  "inMemoryCache uuid now =
     \<lparr>cache_acquireLock = (\<lambda>k ttl c. case acquireLock k \<lparr>lo_ttlMs = ttl, lo_value = None\<rparr> uuid now c of (r, c') \<Rightarrow> (Inr r, c')),
      cache_releaseLock = (\<lambda>k v c. case releaseLock k v c of (r, c') \<Rightarrow> (Inr r, c')),
      cache_getJobContext = (\<lambda>n c. case getJobContext n now c of (r, c') \<Rightarrow> (Inr r, c')),
      cache_setJobContext = (\<lambda>n x c. (Inr (), setJobContext n x None now c)),
      cache_pingReplica = Some (\<lambda>r c. case pingReplica r now c of (b, c') \<Rightarrow> (Inr b, c')),
      cache_destroy = Some (\<lambda>c. (Inr (), destroyCache c)),
      cache_cleanup = Some (\<lambda>c. (Inr (), cleanup now c))\<rparr>"

record LockInfo =
  li_lockValue :: string
  li_acquiredAt :: int
  li_ttlMs :: int
  li_jobName :: string

record Manager =
  m_replicaId :: string
  m_hasHandler :: bool
  m_querySecret :: "string option"
  m_enabled :: bool
  m_watchInterval :: nat
  m_releaseLocksOnShutdown :: bool
  m_cronJobs :: "(string \<times> Job) list"
  m_logLevel :: string
  m_isInitialized :: bool
  m_isDestroyed :: bool
  m_isResetting :: bool
  m_inlineHandlers :: "string list"
  m_activeLocks :: "(string \<times> LockInfo) list"
  m_deadlockDetectionInterval :: bool

record 'c World =
  mgr :: Manager
  store :: InMemoryStorage
  cache :: 'c

subsection \<open>Sequencing\<close>

definition bindE :: "('s \<Rightarrow> (error + 'a) \<times> 's) \<Rightarrow> ('a \<Rightarrow> 's \<Rightarrow> (error + 'b) \<times> 's) \<Rightarrow> 's \<Rightarrow> (error + 'b) \<times> 's" where
  "bindE m f s = (case m s of (r, s') \<Rightarrow> (case r of Inl e \<Rightarrow> (Inl e, s') | Inr a \<Rightarrow> f a s'))"

definition returnE :: "'a \<Rightarrow> 's \<Rightarrow> (error + 'a) \<times> 's" where
  "returnE a s = (Inr a, s)"

definition throwE :: "error \<Rightarrow> 's \<Rightarrow> (error + 'a) \<times> 's" where
  "throwE e s = (Inl e, s)"

text \<open>A check that throws or passes.\<close>

definition checkE :: "error option \<Rightarrow> 's \<Rightarrow> (error + unit) \<times> 's" where
  "checkE r s = (case r of None \<Rightarrow> (Inr (), s) | Some e \<Rightarrow> (Inl e, s))"

definition onStore :: "(InMemoryStorage \<Rightarrow> (error + 'a) \<times> InMemoryStorage) \<Rightarrow> 'c World \<Rightarrow> (error + 'a) \<times> 'c World" where
  "onStore f w = (case f (store w) of (r, s') \<Rightarrow> (r, w\<lparr>store := s'\<rparr>))"

definition onCache :: "('c \<Rightarrow> (error + 'a) \<times> 'c) \<Rightarrow> 'c World \<Rightarrow> (error + 'a) \<times> 'c World" where
  "onCache f w = (case f (cache w) of (r, c') \<Rightarrow> (r, w\<lparr>cache := c'\<rparr>))"

subsection \<open>Decimal numerals in messages\<close>

function showNat :: "nat \<Rightarrow> string" where
  "showNat n = (if n < 10 then [char_of (48 + n)] else showNat (n div 10) @ [char_of (48 + n mod 10)])"
  by pat_completeness auto
termination
  by (relation "measure id") auto

subsection \<open>The ensure-initialized gate (lines 831-838)\<close>

definition ensureInitialized :: "Manager \<Rightarrow> error option" where
  "ensureInitialized m =
     (if m_isDestroyed m then Some (Error ''Manager has been destroyed.'')
      else if \<not> m_isInitialized m then Some (Error ''Manager not initialized. Call initialize() first.'')
      else None)"

subsection \<open>updateControlWithRetry (lines 842-904) and triggerReset (lines 905-932)\<close>

text \<open>
  \<open>Array.from(new Set(xs))\<close>: the elements of \<open>xs\<close> in the order of their first occurrence.
\<close>

definition uniq :: "'a list \<Rightarrow> 'a list" where
  "uniq xs = fold (\<lambda>x acc. if x \<in> set acc then acc else acc @ [x]) xs []"

definition retryable :: "string \<Rightarrow> bool" where
  "retryable msg =
     (includesStr msg ''version mismatch'' \<or> includesStr msg ''optimistic lock''
      \<or> includesStr msg ''concurrent modification'')"

text \<open>
  One attempt: the body of the \<open>try\<close> (lines 846-878). Between its \<open>getControl\<close> and its
  \<open>updateControl\<close> the method is suspended and other replicas can write to the storage:
  \<open>intf attempt\<close> is what they do to it during that attempt (the identity when the
  replica is alone).
\<close>

definition mergeReplicas :: "Control \<Rightarrow> UpdateControl \<Rightarrow> string list option" where
  "mergeReplicas cur d =
     (case u_replicas d of
        None \<Rightarrow> None
      | Some rs \<Rightarrow> if length rs = 0 \<or> u_isHealthCheckUpdate d then Some rs
                   else Some (uniq (c_replicas cur @ rs)))"

definition attemptUpdate ::
  "(nat \<Rightarrow> InMemoryStorage \<Rightarrow> InMemoryStorage) \<Rightarrow> nat \<Rightarrow> int \<Rightarrow> string \<Rightarrow> UpdateControl
   \<Rightarrow> InMemoryStorage \<Rightarrow> (error + Control) \<times> InMemoryStorage" where
  "attemptUpdate intf attempt now ident d s =
     (case getControl s of
        None \<Rightarrow> (Inl (Error ''Control not found''), s)
      | Some cur \<Rightarrow>
          if c_id cur \<noteq> ident
          then (Inl (Error (''Control ID mismatch: expected '' @ ident @ '', got '' @ c_id cur)), s)
          else
            let mergedData = d\<lparr>u_version := Some (c_version cur), u_replicas := mergeReplicas cur d\<rparr>
            in updateControl now ident mergedData (intf attempt s))"

definition exhaustedMessage :: "nat \<Rightarrow> error option \<Rightarrow> string" where
  "exhaustedMessage maxRetries lastError =
     ''Failed to update control after '' @ showNat maxRetries @ '' attempts. Last error: ''
     @ (case lastError of None \<Rightarrow> ''Unknown error''
        | Some e \<Rightarrow> if message e = [] then ''Unknown error'' else message e)"

text \<open>The \<open>for\<close> loop with \<open>remaining\<close> attempts to go; the attempt number is
  \<open>maxRetries - remaining + 1\<close>. A retryable error leads to the next attempt (after a
  delay when it is not the last one), any other error is thrown at once.\<close>

fun retryLoop ::
  "(nat \<Rightarrow> InMemoryStorage \<Rightarrow> InMemoryStorage) \<Rightarrow> int \<Rightarrow> string \<Rightarrow> UpdateControl \<Rightarrow> nat
   \<Rightarrow> nat \<Rightarrow> error option \<Rightarrow> InMemoryStorage \<Rightarrow> (error + Control) \<times> InMemoryStorage" where
  "retryLoop intf now ident d maxRetries 0 lastError s =
     (Inl (Error (exhaustedMessage maxRetries lastError)), s)"
| "retryLoop intf now ident d maxRetries (Suc remaining) lastError s =
     (case attemptUpdate intf (maxRetries - remaining) now ident d s of
        (Inr c, s') \<Rightarrow> (Inr c, s')
      | (Inl e, s') \<Rightarrow>
          if retryable (message e) then retryLoop intf now ident d maxRetries remaining (Some e) s'
          else (Inl e, s'))"

definition updateControlWithRetry ::
  "(nat \<Rightarrow> InMemoryStorage \<Rightarrow> InMemoryStorage) \<Rightarrow> int \<Rightarrow> string \<Rightarrow> UpdateControl \<Rightarrow> nat
   \<Rightarrow> InMemoryStorage \<Rightarrow> (error + Control) \<times> InMemoryStorage" where
  "updateControlWithRetry intf now ident d maxRetries s =
     retryLoop intf now ident d maxRetries maxRetries None s"

definition alone :: "nat \<Rightarrow> InMemoryStorage \<Rightarrow> InMemoryStorage" where
  "alone attempt s = s"

text \<open>triggerReset: every error of the update is caught and only logged.\<close>

definition triggerReset ::
  "(nat \<Rightarrow> InMemoryStorage \<Rightarrow> InMemoryStorage) \<Rightarrow> Env \<Rightarrow> InMemoryStorage \<Rightarrow> InMemoryStorage" where
  "triggerReset intf env s =
     (case getControl s of
        None \<Rightarrow> s
      | Some control \<Rightarrow>
          snd (updateControlWithRetry intf (e_now env) (c_id control)
                 (emptyUpdateControl\<lparr>u_stale := Some (c_replicas control), u_version := Some (e_version env)\<rparr>)
                 5 s))"

subsection \<open>Characters\<close>

definition code :: "char \<Rightarrow> nat" where
  "code c = of_char c"

definition isLower :: "char \<Rightarrow> bool" where
  "isLower c = (97 \<le> code c \<and> code c \<le> 122)"

definition isUpper :: "char \<Rightarrow> bool" where
  "isUpper c = (65 \<le> code c \<and> code c \<le> 90)"

definition isDigit :: "char \<Rightarrow> bool" where
  "isDigit c = (48 \<le> code c \<and> code c \<le> 57)"

text \<open>The class \<open>[a-zA-Z0-9_-]\<close>.\<close>

definition isNameChar :: "char \<Rightarrow> bool" where
  "isNameChar c = (isLower c \<or> isUpper c \<or> isDigit c \<or> code c = 95 \<or> code c = 45)"

text \<open>The characters \<open>String.prototype.trim\<close> removes, among those below 256.\<close>

definition isSpace :: "char \<Rightarrow> bool" where
  "isSpace c = (code c \<in> {9, 10, 11, 12, 13, 32, 160})"

definition toLowerCase :: "string \<Rightarrow> string" where
  "toLowerCase s = map (\<lambda>c. if isUpper c then char_of (code c + 32) else c) s"

subsection \<open>The query secret (lines 82-114) and the replica id (lines 118-136)\<close>

text \<open>The class \<open>[!@#$%^&*()_+\-=\[\]{};':"\\|,.<>\/?]\<close>, by character code.\<close>

definition isSpecialChar :: "char \<Rightarrow> bool" where
  "isSpecialChar c =
     (code c \<in> {33, 64, 35, 36, 37, 94, 38, 42, 40, 41, 95, 43, 45, 61, 91, 93, 123, 125, 59, 39,
                 58, 34, 92, 124, 44, 46, 60, 62, 47, 63})"

text \<open>\<open>/(.)\1{3,}/\<close>: a character other than a line terminator, four times in a row.\<close>

fun repeated4 :: "string \<Rightarrow> bool" where
  "repeated4 (a # b # c # d # rest) =
     ((a = b \<and> b = c \<and> c = d \<and> code a \<noteq> 10 \<and> code a \<noteq> 13) \<or> repeated4 (b # c # d # rest))"
| "repeated4 s = False"

definition complexityScore :: "string \<Rightarrow> nat" where
  "complexityScore secret =
     length (filter id [list_ex isLower secret, list_ex isUpper secret, list_ex isDigit secret,
                        list_ex isSpecialChar secret])"

definition weakPattern :: "string \<Rightarrow> bool" where
  "weakPattern secret =
     (repeated4 secret \<or> includesStr secret ''123456''
      \<or> includesStr (toLowerCase secret) ''abcdef'' \<or> includesStr (toLowerCase secret) ''password''
      \<or> includesStr (toLowerCase secret) ''secret'' \<or> includesStr (toLowerCase secret) ''admin''
      \<or> includesStr (toLowerCase secret) ''qwerty'')"

definition validateQuerySecret :: "string \<Rightarrow> error option" where
  "validateQuerySecret secret =
     (if length secret < 32
      then Some (ValidationError ''Query secret must be at least 32 characters long for adequate security'')
      else if complexityScore secret < 3
      then Some (ValidationError ''Query secret must contain at least 3 of: lowercase, uppercase, numbers, special characters'')
      else if weakPattern secret
      then Some (ValidationError ''Query secret contains weak patterns. Please use a stronger secret.'')
      else None)"

text \<open>validateReplicaId: a string that matches the UUID pattern also matches
  \<open>/^[a-zA-Z0-9_-]{8,}$/\<close>, so the second pattern decides.\<close>

definition validateReplicaId :: "string \<Rightarrow> error option" where
  "validateReplicaId replicaId =
     (if length replicaId < 8 then Some (ValidationError ''Replica ID must be at least 8 characters long'')
      else if \<not> list_all isNameChar replicaId
      then Some (ValidationError ''Replica ID must be a UUID or contain only alphanumeric characters, hyphens, and underscores'')
      else None)"

text \<open>A string option as a condition: absent and empty are both falsy.\<close>

definition truthy :: "string option \<Rightarrow> bool" where
  "truthy v = (case v of None \<Rightarrow> False | Some x \<Rightarrow> x \<noteq> [])"

subsection \<open>The constructor (lines 14-46) and validateConfiguration (lines 65-78)\<close>

record ManagerOptions =
  mo_replicaId :: string
  mo_hasHandler :: bool
  mo_querySecret :: "string option"
  mo_enabled :: "bool option"
  mo_watchInterval :: "nat option"
  mo_releaseLocksOnShutdown :: "bool option"

text \<open>\<open>mo_replicaId\<close> is the value of
  \<open>options.replicaId || process.env.LUDARI_REPLICA_ID || randomUUID()\<close>; storage and logger
  are taken to be given.\<close>

definition newManager :: "ManagerOptions \<Rightarrow> error + Manager" where
  "newManager options =
     (case (if truthy (mo_querySecret options) then validateQuerySecret (the (mo_querySecret options)) else None) of
        Some e \<Rightarrow> Inl e
      | None \<Rightarrow>
          (case validateReplicaId (mo_replicaId options) of
             Some e \<Rightarrow> Inl e
           | None \<Rightarrow>
               Inr \<lparr>m_replicaId = mo_replicaId options,
                    m_hasHandler = mo_hasHandler options,
                    m_querySecret = mo_querySecret options,
                    m_enabled = (case mo_enabled options of None \<Rightarrow> False | Some b \<Rightarrow> b),
                    m_watchInterval = max 1 (min 5 (case mo_watchInterval options of None \<Rightarrow> 5 | Some n \<Rightarrow> n)),
                    m_releaseLocksOnShutdown = (case mo_releaseLocksOnShutdown options of None \<Rightarrow> True | Some b \<Rightarrow> b),
                    m_cronJobs = [], m_logLevel = ''info'', m_isInitialized = False,
                    m_isDestroyed = False, m_isResetting = False, m_inlineHandlers = [],
                    m_activeLocks = [], m_deadlockDetectionInterval = False\<rparr>))"

subsection \<open>The crypto envelope: encryptQuery (lines 933-949), decryptQuery (lines 950-971)\<close>

text \<open>
  What the two methods call in Node's \<open>crypto\<close> and \<open>Buffer\<close> are parameters:
  \<^item> \<open>pbkdf2Sync secret salt\<close>: \<open>pbkdf2Sync(secret, salt, 100000, 32, 'sha256')\<close>;
  \<^item> \<open>aesCtrEncrypt key iv bytes\<close>: all the bytes that
    \<open>createCipheriv('aes-256-ctr', key, iv)\<close> puts out for \<open>bytes\<close> (\<open>update\<close> then
    \<open>final\<close>); \<open>aesCtrDecrypt\<close> likewise for \<open>createDecipheriv\<close>;
  \<^item> \<open>utf8Encode\<close> and \<open>utf8Decode\<close>: a string to its UTF-8 bytes and back
    (the \<open>'utf8'\<close> input and output encodings);
  \<^item> \<open>hexEncode\<close>, \<open>hexDecode\<close>, \<open>base64Encode\<close>, \<open>base64Decode\<close>: the \<open>'hex'\<close> and
    \<open>'base64'\<close> encodings of a Buffer.
  The type \<open>'t\<close> is the type of the strings that are encrypted.
\<close>

record 't CryptoPrims =
  pbkdf2Sync :: "string \<Rightarrow> byte list \<Rightarrow> byte list"
  aesCtrEncrypt :: "byte list \<Rightarrow> byte list \<Rightarrow> byte list \<Rightarrow> byte list"
  aesCtrDecrypt :: "byte list \<Rightarrow> byte list \<Rightarrow> byte list \<Rightarrow> byte list"
  utf8Encode :: "'t \<Rightarrow> byte list"
  utf8Decode :: "byte list \<Rightarrow> 't"
  hexEncode :: "byte list \<Rightarrow> string"
  hexDecode :: "string \<Rightarrow> byte list"
  base64Encode :: "byte list \<Rightarrow> string"
  base64Decode :: "string \<Rightarrow> byte list"

definition encryptQuery ::
  "'t CryptoPrims \<Rightarrow> string option \<Rightarrow> byte list \<Rightarrow> byte list \<Rightarrow> 't \<Rightarrow> error + string" where
  "encryptQuery P querySecret iv salt text =
     (if \<not> truthy querySecret then Inl (Error ''Query secret not configured'')
      else
        let derived = pbkdf2Sync P (the querySecret) salt;
            encrypted = hexEncode P (aesCtrEncrypt P derived iv (utf8Encode P text));
            combined = iv @ salt @ hexDecode P encrypted
        in Inr (base64Encode P combined))"

text \<open>\<open>createDecipheriv\<close> throws on an IV that is not 16 bytes long, which is the case
  when the decoded envelope is shorter than that; the \<open>catch\<close> rewraps the error.\<close>

definition decryptQuery :: "'t CryptoPrims \<Rightarrow> string option \<Rightarrow> string \<Rightarrow> error + 't" where
  "decryptQuery P querySecret encryptedData =
     (if \<not> truthy querySecret then Inl (Error ''Query secret not configured'')
      else
        let combined = base64Decode P encryptedData;
            iv = take 16 combined;
            salt = take 32 (drop 16 combined);
            encrypted = drop 48 combined;
            derived = pbkdf2Sync P (the querySecret) salt
        in if length iv \<noteq> 16
           then Inl (Error ''Failed to decrypt query: Invalid initialization vector'')
           else Inr (utf8Decode P (aesCtrDecrypt P derived iv encrypted)))"

text \<open>What the theorems on the envelope ask of the primitives: deciphering undoes
  enciphering, and decoding undoes encoding, for \<open>'hex'\<close> and for \<open>'base64'\<close>.\<close>

definition meetsContracts :: "'t CryptoPrims \<Rightarrow> bool" where
  "meetsContracts P =
     ((\<forall>k iv bs. aesCtrDecrypt P k iv (aesCtrEncrypt P k iv bs) = bs)
      \<and> (\<forall>bs. hexDecode P (hexEncode P bs) = bs)
      \<and> (\<forall>bs. base64Decode P (base64Encode P bs) = bs))"

subsection \<open>UTF-8 as Node encodes and decodes JavaScript strings\<close>

text \<open>
  A JavaScript string is a sequence of UTF-16 code units, here natural numbers below 65536.
  Node's \<open>'utf8'\<close> encoding writes a surrogate pair as the four bytes of its code point
  and an unpaired surrogate as the three bytes EF BF BD of U+FFFD; decoding reads
  well-formed UTF-8 back into code units and puts U+FFFD for a byte that starts no
  well-formed sequence. These two functions are written after Node's documented
  behaviour; they are used where a concrete encoding is needed.
\<close>

definition isHighSurrogate :: "nat \<Rightarrow> bool" where
  "isHighSurrogate u = (55296 \<le> u \<and> u < 56320)"

definition isLowSurrogate :: "nat \<Rightarrow> bool" where
  "isLowSurrogate u = (56320 \<le> u \<and> u < 57344)"

definition replacementBytes :: "byte list" where
  "replacementBytes = [239, 191, 189]"

definition encodeScalar :: "nat \<Rightarrow> byte list" where
  "encodeScalar cp =
     (if cp < 128 then [of_nat cp]
      else if cp < 2048 then [of_nat (192 + cp div 64), of_nat (128 + cp mod 64)]
      else if cp < 65536
      then [of_nat (224 + cp div 4096), of_nat (128 + (cp div 64) mod 64), of_nat (128 + cp mod 64)]
      else [of_nat (240 + cp div 262144), of_nat (128 + (cp div 4096) mod 64),
            of_nat (128 + (cp div 64) mod 64), of_nat (128 + cp mod 64)])"

fun nodeUtf8Encode :: "nat list \<Rightarrow> byte list" where
  "nodeUtf8Encode [] = []"
| "nodeUtf8Encode (u # rest) =
     (if isHighSurrogate u
      then (case rest of
              [] \<Rightarrow> replacementBytes
            | l # rest' \<Rightarrow>
                if isLowSurrogate l
                then encodeScalar (65536 + (u - 55296) * 1024 + (l - 56320)) @ nodeUtf8Encode rest'
                else replacementBytes @ nodeUtf8Encode rest)
      else if isLowSurrogate u then replacementBytes @ nodeUtf8Encode rest
      else encodeScalar u @ nodeUtf8Encode rest)"

definition isContinuation :: "byte \<Rightarrow> bool" where
  "isContinuation b = (128 \<le> unat b \<and> unat b < 192)"

text \<open>The code point of the multi-byte sequence that starts with lead byte \<open>n0\<close>, and the
  number of continuation bytes it takes from \<open>bs\<close>; \<open>None\<close> when there is no well-formed
  sequence.\<close>

definition decodeMulti :: "nat \<Rightarrow> byte list \<Rightarrow> (nat \<times> nat) option" where
  "decodeMulti n0 bs =
     (if 194 \<le> n0 \<and> n0 < 224
      then (case bs of
              b1 # r \<Rightarrow> if isContinuation b1 then Some ((n0 - 192) * 64 + (unat b1 - 128), 1) else None
            | _ \<Rightarrow> None)
      else if 224 \<le> n0 \<and> n0 < 240
      then (case bs of
              b1 # b2 # r \<Rightarrow>
                let cp = (n0 - 224) * 4096 + (unat b1 - 128) * 64 + (unat b2 - 128)
                in if isContinuation b1 \<and> isContinuation b2 \<and> 2048 \<le> cp
                      \<and> \<not> isHighSurrogate cp \<and> \<not> isLowSurrogate cp
                   then Some (cp, 2) else None
            | _ \<Rightarrow> None)
      else if 240 \<le> n0 \<and> n0 < 245
      then (case bs of
              b1 # b2 # b3 # r \<Rightarrow>
                let cp = (n0 - 240) * 262144 + (unat b1 - 128) * 4096 + (unat b2 - 128) * 64 + (unat b3 - 128)
                in if isContinuation b1 \<and> isContinuation b2 \<and> isContinuation b3
                      \<and> 65536 \<le> cp \<and> cp < 1114112
                   then Some (cp, 3) else None
            | _ \<Rightarrow> None)
      else None)"

definition unitsOf :: "nat \<Rightarrow> nat list" where
  "unitsOf cp =
     (if cp < 65536 then [cp]
      else [55296 + (cp - 65536) div 1024, 56320 + (cp - 65536) mod 1024])"

fun nodeUtf8Decode :: "byte list \<Rightarrow> nat list" where
  "nodeUtf8Decode [] = []"
| "nodeUtf8Decode (b0 # bs) =
     (if unat b0 < 128 then unat b0 # nodeUtf8Decode bs
      else (case decodeMulti (unat b0) bs of
              None \<Rightarrow> 65533 # nodeUtf8Decode bs
            | Some cpk \<Rightarrow> unitsOf (fst cpk) @ nodeUtf8Decode (drop (snd cpk) bs)))"

text \<open>The strings in which every surrogate is paired: a high surrogate is followed by a
  low one, and a low one follows a high one.\<close>

fun wellFormed :: "nat list \<Rightarrow> bool" where
  "wellFormed [] = True"
| "wellFormed (u # rest) =
     (if isHighSurrogate u
      then (case rest of [] \<Rightarrow> False | l # rest' \<Rightarrow> isLowSurrogate l \<and> wellFormed rest')
      else \<not> isLowSurrogate u \<and> u < 65536 \<and> wellFormed rest)"

subsection \<open>Stand-ins for the primitives\<close>

text \<open>
  A set of primitives that meets the contracts, to exercise the theorems on concrete
  inputs. They are not Node's algorithms: the key is the secret and the salt, padded and
  cut to 32 bytes; the cipher XORs the data with the key followed by the IV, repeated; the
  \<open>'hex'\<close> encoding is the real one, and it is also what stands in for \<open>'base64'\<close>. The
  UTF-8 functions are handed in.
\<close>

definition hexDigit :: "nat \<Rightarrow> char" where
  "hexDigit n = (if n < 10 then char_of (48 + n) else char_of (87 + n))"

definition hexValue :: "char \<Rightarrow> nat" where
  "hexValue ch =
     (if isDigit ch then code ch - 48
      else if 97 \<le> code ch \<and> code ch \<le> 102 then code ch - 87
      else if 65 \<le> code ch \<and> code ch \<le> 70 then code ch - 55
      else 0)"

fun hexOf :: "byte list \<Rightarrow> string" where
  "hexOf [] = []"
| "hexOf (b # bs) = hexDigit (unat b div 16) # hexDigit (unat b mod 16) # hexOf bs"

fun unhex :: "string \<Rightarrow> byte list" where
  "unhex (a # b # rest) = of_nat (hexValue a * 16 + hexValue b) # unhex rest"
| "unhex s = []"

fun xorCycle :: "byte list \<Rightarrow> nat \<Rightarrow> byte list \<Rightarrow> byte list" where
  "xorCycle ks i [] = []"
| "xorCycle ks i (b # bs) =
     (b XOR (if ks = [] then 0 else ks ! (i mod length ks))) # xorCycle ks (Suc i) bs"

definition standInPrims :: "('t \<Rightarrow> byte list) \<Rightarrow> (byte list \<Rightarrow> 't) \<Rightarrow> 't CryptoPrims" where
  "standInPrims enc dec =
     \<lparr>pbkdf2Sync = (\<lambda>secret salt. take 32 (map (\<lambda>c. of_nat (code c)) secret @ salt @ replicate 32 0)),
      aesCtrEncrypt = (\<lambda>k iv bs. xorCycle (k @ iv) 0 bs),
      aesCtrDecrypt = (\<lambda>k iv bs. xorCycle (k @ iv) 0 bs),
      utf8Encode = enc,
      utf8Decode = dec,
      hexEncode = hexOf,
      hexDecode = unhex,
      base64Encode = hexOf,
      base64Decode = unhex\<rparr>"

text \<open>For JavaScript strings as code units, and for the strings of this development (one
  character per code unit below 256).\<close>

definition unitPrims :: "nat list CryptoPrims" where
  "unitPrims = standInPrims nodeUtf8Encode nodeUtf8Decode"

definition stringPrims :: "string CryptoPrims" where
  "stringPrims =
     standInPrims (\<lambda>s. nodeUtf8Encode (map code s)) (\<lambda>bs. map char_of (nodeUtf8Decode bs))"

subsection \<open>Validation of job data (lines 782-830) and of job access (lines 140-163)\<close>

record Deps =
  cronValid :: "string \<Rightarrow> bool"
  crypto :: "string CryptoPrims"

text \<open>The first check that throws decides.\<close>

fun firstError :: "error option list \<Rightarrow> error option" where
  "firstError [] = None"
| "firstError (None # rest) = firstError rest"
| "firstError (Some e # rest) = Some e"

text \<open>
  validateJobData reads its argument as an UpdateJob (every property optional); a CreateJob
  is read through \<open>asUpdateJob\<close>. The tests on the JavaScript type of a property are left
  out: the record types decide them.
\<close>

definition asUpdateJob :: "CreateJob \<Rightarrow> UpdateJob" where
  "asUpdateJob d =
     \<lparr>uj_name = Some (cj_name d), uj_type = Some (cj_type d), uj_enabled = Some (cj_enabled d),
      uj_context = cj_context d, uj_cron = cj_cron d, uj_query = cj_query d,
      uj_persist = cj_persist d, uj_silent = cj_silent d, uj_deleted = None\<rparr>"

definition validateJobData :: "Deps \<Rightarrow> Manager \<Rightarrow> UpdateJob \<Rightarrow> bool \<Rightarrow> error option" where
  "validateJobData deps m d isUpdate =
     firstError
       [case uj_name d of
          Some n \<Rightarrow> if list_all isSpace n then Some (ValidationError ''Job name must be a non-empty string'') else None
        | None \<Rightarrow> if \<not> isUpdate then Some (ValidationError ''Job name is required'') else None,
        case uj_type d of
          Some t \<Rightarrow> None
        | None \<Rightarrow> if \<not> isUpdate then Some (ValidationError ''Job type is required'') else None,
        if truthy (uj_cron d) \<and> \<not> cronValid deps (the (uj_cron d))
        then Some (ValidationError (''Invalid cron expression: '' @ the (uj_cron d))) else None,
        if uj_type d = Some QUERY \<and> uj_enabled d = Some True \<and> truthy (uj_cron d) \<and> \<not> truthy (uj_query d)
        then Some (ValidationError ''Query jobs must have a query string when enabled and scheduled'') else None,
        if uj_type d = Some METHOD \<and> truthy (uj_cron d) \<and> uj_enabled d = Some True \<and> \<not> m_hasHandler m
        then Some (ValidationError ''Method jobs require a job handler to be registered when scheduled and enabled'')
        else None]"

definition protectedPrefixes :: "string list" where
  "protectedPrefixes = [''__'', ''system:'', ''internal:'']"

definition validateJobAccess :: "string \<Rightarrow> string \<Rightarrow> error option" where
  "validateJobAccess jobName operation =
     (if jobName = [] then Some (ValidationError ''Job name must be a non-empty string'')
      else if jobName \<in> set [WATCH_JOB_NAME]
      then Some (ValidationError (''Cannot '' @ operation @ '' system job: '' @ jobName))
      else
        (case find (startsWith jobName) protectedPrefixes of
           Some prefix \<Rightarrow>
             Some (ValidationError (''Cannot '' @ operation @ '' job with protected prefix '' @ [CHR 39] @ prefix
                          @ [CHR 39] @ '': '' @ jobName))
         | None \<Rightarrow>
             if \<not> list_all isNameChar jobName
             then Some (ValidationError (''Job name '' @ [CHR 39] @ jobName @ [CHR 39]
                    @ '' contains invalid characters. Only alphanumeric, hyphens, and underscores are allowed.''))
             else if length jobName > 100 then Some (ValidationError ''Job name cannot exceed 100 characters'')
             else None))"

definition isWatchJob :: "Job \<Rightarrow> bool" where
  "isWatchJob job = (j_name job = WATCH_JOB_NAME)"

subsection \<open>The public job API (lines 527-681)\<close>

text \<open>
  The Manager's methods that share a name with a method of the storage carry the suffix
  \<open>M\<close>. Where a method calls triggerReset, the replica is taken to be alone on the storage
  during that call.
\<close>

definition encryptIfSecret :: "Deps \<Rightarrow> Manager \<Rightarrow> Env \<Rightarrow> string option \<Rightarrow> error + string option" where
  "encryptIfSecret deps m env q =
     (if truthy q \<and> truthy (m_querySecret m)
      then (case encryptQuery (crypto deps) (m_querySecret m) (e_iv env) (e_salt env) (the q) of
              Inl e \<Rightarrow> Inl e
            | Inr enc \<Rightarrow> Inr (Some enc))
      else Inr q)"

definition createJobM :: "Deps \<Rightarrow> Env \<Rightarrow> CreateJob \<Rightarrow> 'c World \<Rightarrow> (error + Job) \<times> 'c World" where
  "createJobM deps env d w =
     bindE (checkE (ensureInitialized (mgr w))) (\<lambda>u.
     bindE (checkE (validateJobData deps (mgr w) (asUpdateJob d) False)) (\<lambda>u.
     bindE (checkE (validateJobAccess (cj_name d) ''create'')) (\<lambda>u.
     bindE (\<lambda>w1. (encryptIfSecret deps (mgr w1) env (cj_query d), w1)) (\<lambda>q.
     bindE (onStore (createJob (e_jobId env) (e_now env) (d\<lparr>cj_query := q\<rparr>))) (\<lambda>job w1.
       (Inr job,
        if cj_type d \<in> {QUERY, METHOD} \<and> truthy (cj_cron d)
        then w1\<lparr>store := triggerReset alone env (store w1)\<rparr> else w1)))))) w"

definition updateJobM ::
  "Deps \<Rightarrow> 'c Cache \<Rightarrow> Env \<Rightarrow> string \<Rightarrow> UpdateJob \<Rightarrow> 'c World \<Rightarrow> (error + Job) \<times> 'c World" where
  "updateJobM deps ops env ident d w =
     bindE (checkE (ensureInitialized (mgr w))) (\<lambda>u w0.
       let existingJob = findJob ident (store w0) in
       bindE (checkE (validateJobData deps (mgr w0) d True)) (\<lambda>u.
       bindE (checkE (case existingJob of None \<Rightarrow> None | Some j \<Rightarrow> validateJobAccess (j_name j) ''update'')) (\<lambda>u.
       bindE (checkE (if truthy (uj_name d) then validateJobAccess (the (uj_name d)) ''update'' else None)) (\<lambda>u.
       bindE (\<lambda>w1. (encryptIfSecret deps (mgr w1) env (uj_query d), w1)) (\<lambda>q.
       bindE (\<lambda>w1. case uj_context d of
                       None \<Rightarrow> (Inr (), w1)
                     | Some ctx \<Rightarrow>
                         (case findJob ident (store w1) of
                            None \<Rightarrow> (Inr (), w1)
                          | Some job \<Rightarrow> onCache (cache_setJobContext ops (j_name job) ctx) w1)) (\<lambda>u.
       bindE (onStore (updateJob (e_now env) ident (d\<lparr>uj_query := q\<rparr>))) (\<lambda>updatedJob w1.
         (Inr updatedJob,
          if j_type updatedJob \<in> {QUERY, METHOD}
          then w1\<lparr>store := triggerReset alone env (store w1)\<rparr> else w1))))))) w0) w"

text \<open>The common start of toggleJob, enableJob, disableJob and deleteJob: the gate, the
  id, the lookup and the access check. \<open>idMessage\<close> is \<open>Job id is required\<close> in toggleJob
  and \<open>Job ID is required\<close> in the others.\<close>

definition lookupForChange :: "string \<Rightarrow> string \<Rightarrow> string \<Rightarrow> 'c World \<Rightarrow> (error + Job) \<times> 'c World" where
  "lookupForChange idMessage operation ident w =
     bindE (checkE (ensureInitialized (mgr w))) (\<lambda>u.
     bindE (checkE (if ident = [] then Some (ValidationError idMessage) else None)) (\<lambda>u w1.
       case findJob ident (store w1) of
         None \<Rightarrow> (Inl (Error (''Job not found: '' @ ident)), w1)
       | Some job \<Rightarrow>
           bindE (checkE (validateJobAccess (j_name job) operation)) (\<lambda>u. returnE job) w1)) w"

definition toggleJob :: "Deps \<Rightarrow> 'c Cache \<Rightarrow> Env \<Rightarrow> string \<Rightarrow> 'c World \<Rightarrow> (error + Job) \<times> 'c World" where
  "toggleJob deps ops env ident w =
     bindE (lookupForChange ''Job id is required'' ''toggle'' ident) (\<lambda>job.
       updateJobM deps ops env (j_id job) (emptyUpdateJob\<lparr>uj_enabled := Some (\<not> j_enabled job)\<rparr>)) w"

definition enableJob :: "Deps \<Rightarrow> 'c Cache \<Rightarrow> Env \<Rightarrow> string \<Rightarrow> 'c World \<Rightarrow> (error + Job) \<times> 'c World" where
  "enableJob deps ops env ident w =
     bindE (lookupForChange ''Job ID is required'' ''enable'' ident) (\<lambda>job.
       if j_enabled job then returnE job
       else updateJobM deps ops env ident (emptyUpdateJob\<lparr>uj_enabled := Some True\<rparr>)) w"

definition disableJob :: "Deps \<Rightarrow> 'c Cache \<Rightarrow> Env \<Rightarrow> string \<Rightarrow> 'c World \<Rightarrow> (error + Job) \<times> 'c World" where
  "disableJob deps ops env ident w =
     bindE (lookupForChange ''Job ID is required'' ''disable'' ident) (\<lambda>job.
       if \<not> j_enabled job then returnE job
       else updateJobM deps ops env ident (emptyUpdateJob\<lparr>uj_enabled := Some False\<rparr>)) w"

definition getJob :: "string \<Rightarrow> 'c World \<Rightarrow> (error + Job option) \<times> 'c World" where
  "getJob ident w =
     bindE (checkE (ensureInitialized (mgr w))) (\<lambda>u.
     bindE (checkE (if ident = [] then Some (ValidationError ''Job ID is required'') else None)) (\<lambda>u w1.
       case findJob ident (store w1) of
         None \<Rightarrow> (Inr None, w1)
       | Some job \<Rightarrow> if isWatchJob job then (Inr None, w1) else (Inr (Some job), w1))) w"

definition deleteJobM :: "Env \<Rightarrow> string \<Rightarrow> 'c World \<Rightarrow> (error + unit) \<times> 'c World" where
  "deleteJobM env ident w =
     bindE (lookupForChange ''Job ID is required'' ''delete'' ident) (\<lambda>job w1.
       onStore (deleteJob (e_now env) ident)
         (w1\<lparr>mgr := (mgr w1)\<lparr>m_cronJobs := AList.delete (j_name job) (m_cronJobs (mgr w1))\<rparr>\<rparr>)) w"

definition listJobRuns :: "JobRunFilter option \<Rightarrow> 'c World \<Rightarrow> (error + JobRun PaginatedResponse) \<times> 'c World" where
  "listJobRuns flt w =
     bindE (checkE (ensureInitialized (mgr w))) (\<lambda>u w1. (Inr (findJobRuns flt (store w1)), w1)) w"

definition listJobs :: "JobFilter option \<Rightarrow> 'c World \<Rightarrow> (error + Job PaginatedResponse) \<times> 'c World" where
  "listJobs flt w =
     bindE (checkE (ensureInitialized (mgr w))) (\<lambda>u w1.
       let jobsResponse = findJobs flt (store w1)
       in (Inr (jobsResponse\<lparr>p_data := filter (\<lambda>job. \<not> isWatchJob job) (p_data jobsResponse)\<rparr>), w1)) w"

definition getControlM :: "'c World \<Rightarrow> (error + Control option) \<times> 'c World" where
  "getControlM w =
     bindE (checkE (ensureInitialized (mgr w))) (\<lambda>u w1. (Inr (getControl (store w1)), w1)) w"

definition toggleControl :: "Env \<Rightarrow> 'c World \<Rightarrow> (error + bool) \<times> 'c World" where
  "toggleControl env w =
     bindE (checkE (ensureInitialized (mgr w))) (\<lambda>u w1.
       case getControl (store w1) of
         None \<Rightarrow> (Inl (Error ''Control not found''), w1)
       | Some control \<Rightarrow>
           bindE (onStore (updateControl (e_now env) (c_id control)
                    (emptyUpdateControl\<lparr>u_enabled := Some (\<not> c_enabled control)\<rparr>)))
                 (\<lambda>updated. returnE (c_enabled updated)) w1) w"

subsection \<open>The scheduler: scheduleJob (lines 270-303), initializeJobs (lines 248-266)\<close>

text \<open>scheduleJob never throws: the constructor of CronJob throws on a cron expression it
  does not accept, inside the \<open>try\<close>, after the timer that was there has been dropped.\<close>

definition scheduleJob :: "Deps \<Rightarrow> Job \<Rightarrow> Manager \<Rightarrow> Manager" where
  "scheduleJob deps job m =
     (let m1 = m\<lparr>m_cronJobs := AList.delete (j_name job) (m_cronJobs m)\<rparr>
      in if \<not> j_enabled job \<or> \<not> truthy (j_cron job) \<or> j_deleted job \<noteq> None then m1
         else if j_type job = QUERY \<and> \<not> truthy (j_query job) \<and> j_name job \<noteq> WATCH_JOB_NAME then m1
         else if j_type job = METHOD \<and> \<not> m_hasHandler m then m1
         else if \<not> cronValid deps (the (j_cron job)) then m1
         else m1\<lparr>m_cronJobs := AList.update (j_name job) job (m_cronJobs m1)\<rparr>)"

definition initializeJobs :: "Deps \<Rightarrow> 'c World \<Rightarrow> 'c World" where
  "initializeJobs deps w =
     (if \<not> (case getControl (store w) of None \<Rightarrow> False | Some control \<Rightarrow> c_enabled control)
         \<or> \<not> m_enabled (mgr w)
      then w
      else
        let found = p_data (findJobs (Some (emptyJobFilter\<lparr>f_deleted := Some DeletedNull\<rparr>)) (store w))
        in w\<lparr>mgr := fold (scheduleJob deps) found (mgr w)\<rparr>)"

subsection \<open>prepare (lines 187-244) and performReplicaHealthCheck (lines 1132-1185)\<close>

text \<open>A ping that rejects or runs into the five-second timeout counts as unhealthy. The
  pings are made one after the other, in the order of the list.\<close>

definition pingOne ::
  "(string \<Rightarrow> 'c \<Rightarrow> (error + bool) \<times> 'c) \<Rightarrow> string \<Rightarrow> string list \<times> 'c \<Rightarrow> string list \<times> 'c" where
  "pingOne ping replicaId acc =
     (case ping replicaId (snd acc) of
        (r, c') \<Rightarrow> (if r = Inr True then fst acc @ [replicaId] else fst acc, c'))"

definition performReplicaHealthCheck :: "'c Cache \<Rightarrow> string list \<Rightarrow> 'c World \<Rightarrow> string list \<times> 'c World" where
  "performReplicaHealthCheck ops rs w =
     (if rs = [] then ([], w)
      else
        (case cache_pingReplica ops of
           None \<Rightarrow> (if m_replicaId (mgr w) \<in> set rs then rs else rs @ [m_replicaId (mgr w)], w)
         | Some ping \<Rightarrow>
             let otherReplicas = filter (\<lambda>r. r \<noteq> m_replicaId (mgr w)) rs
             in if otherReplicas = [] then ([m_replicaId (mgr w)], w)
                else (case fold (pingOne ping) otherReplicas ([m_replicaId (mgr w)], cache w) of
                        (healthy, c') \<Rightarrow> (healthy, w\<lparr>cache := c'\<rparr>))))"

definition arraysEqual :: "string list \<Rightarrow> string list \<Rightarrow> bool" where
  "arraysEqual arr1 arr2 =
     (length arr1 = length arr2 \<and> list_all (\<lambda>item. item \<in> set arr2) arr1
      \<and> list_all (\<lambda>item. item \<in> set arr1) arr2)"

definition watchJobData :: "Manager \<Rightarrow> CreateJob" where
  "watchJobData m =
     \<lparr>cj_name = WATCH_JOB_NAME, cj_type = QUERY, cj_enabled = True, cj_context = None,
      cj_cron = Some (''*/'' @ showNat (m_watchInterval m) @ '' * * * * *''), cj_query = None,
      cj_persist = Some False, cj_silent = None\<rparr>"

definition prepare :: "Deps \<Rightarrow> 'c Cache \<Rightarrow> Env \<Rightarrow> 'c World \<Rightarrow> (error + unit) \<times> 'c World" where
  "prepare deps ops env w =
     bindE (\<lambda>w0. case getControl (store w0) of
                    Some control \<Rightarrow> (Inr control, w0)
                  | None \<Rightarrow>
                      onStore (createControl (e_controlId env) (e_now env)
                                 \<lparr>cc_enabled = True, cc_log_level = None,
                                  cc_replicas = [m_replicaId (mgr w0)], cc_stale = [],
                                  cc_version = e_version env\<rparr>) w0) (\<lambda>control w1.
       case performReplicaHealthCheck ops (c_replicas control) w1 of
         (checked, w2) \<Rightarrow>
           let self = m_replicaId (mgr w2);
               healthyReplicas = (if self \<in> set checked then checked else checked @ [self])
           in
           bindE (\<lambda>w3. if \<not> arraysEqual healthyReplicas (c_replicas control)
                        then bindE (onStore (updateControlWithRetry alone (e_now env) (c_id control)
                                      (emptyUpdateControl
                                         \<lparr>u_replicas := Some healthyReplicas,
                                          u_stale := Some (filter (\<lambda>r. r \<in> set healthyReplicas) (c_stale control)),
                                          u_isHealthCheckUpdate := True\<rparr>) 5))
                                   (\<lambda>c. returnE ()) w3
                        else (Inr (), w3)) (\<lambda>u.
           bindE (\<lambda>w3. if self \<in> set (c_stale control)
                        then bindE (onStore (updateControlWithRetry alone (e_now env) (c_id control)
                                      (emptyUpdateControl
                                         \<lparr>u_stale := Some (filter (\<lambda>r. r \<noteq> self) (c_stale control))\<rparr>) 5))
                                   (\<lambda>c. returnE ()) w3
                        else (Inr (), w3)) (\<lambda>u.
           bindE (\<lambda>w3. case findJobByName WATCH_JOB_NAME (store w3) of
                          Some watchJob \<Rightarrow> (Inr (), w3)
                        | None \<Rightarrow>
                            bindE (onStore (createJob (e_jobId env) (e_now env) (watchJobData (mgr w3))))
                                  (\<lambda>j. returnE ()) w3) (\<lambda>u w3.
             (Inr (), initializeJobs deps w3)))) w2) w"

subsection \<open>initialize (lines 167-183), destroy (lines 733-775), purgeControl (lines 710-729)\<close>

text \<open>initialize: \<open>startDeadlockDetection\<close> sets the watchdog's interval, which calls
  detectAndHandleDeadlocks every 60 seconds. An error of prepare is thrown again.\<close>

definition initialize :: "Deps \<Rightarrow> 'c Cache \<Rightarrow> Env \<Rightarrow> 'c World \<Rightarrow> (error + unit) \<times> 'c World" where
  "initialize deps ops env w =
     (if m_isInitialized (mgr w) then (Inr (), w)
      else bindE (prepare deps ops env) (\<lambda>u w1.
             (Inr (), w1\<lparr>mgr := (mgr w1)\<lparr>m_deadlockDetectionInterval := True, m_isInitialized := True\<rparr>\<rparr>)) w)"

text \<open>The release of one tracked lock on shutdown: its outcome is only logged.\<close>

definition releaseTracked :: "'c Cache \<Rightarrow> string \<times> LockInfo \<Rightarrow> 'c \<Rightarrow> 'c" where
  "releaseTracked ops kl c = snd (cache_releaseLock ops (fst kl) (li_lockValue (snd kl)) c)"

definition destroy :: "'c Cache \<Rightarrow> 'c World \<Rightarrow> (error + unit) \<times> 'c World" where
  "destroy ops w =
     (if m_isDestroyed (mgr w) then (Inr (), w)
      else
        let m1 = (mgr w)\<lparr>m_isDestroyed := True, m_cronJobs := [], m_deadlockDetectionInterval := False\<rparr>;
            w1 = (if m_releaseLocksOnShutdown m1
                  then w\<lparr>mgr := m1\<lparr>m_activeLocks := []\<rparr>,
                         cache := fold (releaseTracked ops) (m_activeLocks m1) (cache w)\<rparr>
                  else w\<lparr>mgr := m1\<rparr>);
            w2 = w1\<lparr>mgr := (mgr w1)\<lparr>m_inlineHandlers := []\<rparr>\<rparr>
        in (case cache_destroy ops of
              Some d \<Rightarrow> onCache d w2
            | None \<Rightarrow> (case cache_cleanup ops of Some cl \<Rightarrow> onCache cl w2 | None \<Rightarrow> (Inr (), w2))))"

definition purgeControl ::
  "Deps \<Rightarrow> 'c Cache \<Rightarrow> Env \<Rightarrow> 'c World \<Rightarrow> (error + string list \<times> string list) \<times> 'c World" where
  "purgeControl deps ops env w =
     bindE (checkE (ensureInitialized (mgr w))) (\<lambda>u w1.
       case getControl (store w1) of
         None \<Rightarrow> (Inl (Error ''Control not found''), w1)
       | Some control \<Rightarrow>
           bindE (onStore (updateControlWithRetry alone (e_now env) (c_id control)
                    (emptyUpdateControl\<lparr>u_replicas := Some [], u_stale := Some []\<rparr>) 5)) (\<lambda>updatedControl.
           bindE (prepare deps ops env) (\<lambda>u.
             returnE (c_replicas updatedControl, c_stale updatedControl))) w1) w"

text \<open>register (lines 50-55) and unregister (lines 59-61); the handler itself is not kept.\<close>

definition register :: "string \<Rightarrow> Manager \<Rightarrow> error + Manager" where
  "register name m =
     (if name = [] then Inl (ValidationError ''Inline handler requires a valid name and function'')
      else Inr (m\<lparr>m_inlineHandlers := (if name \<in> set (m_inlineHandlers m) then m_inlineHandlers m
                                        else m_inlineHandlers m @ [name])\<rparr>))"

definition unregister :: "string \<Rightarrow> Manager \<Rightarrow> Manager" where
  "unregister name m = m\<lparr>m_inlineHandlers := filter (\<lambda>n. n \<noteq> name) (m_inlineHandlers m)\<rparr>"

subsection \<open>The execution pipeline: handleJob (lines 422-523)\<close>

text \<open>
  The execution handed to handleJob is a function of the context and of the frames the
  Lens holds: it returns a value or throws, and leaves the Lens with some frames. It is
  taken not to touch the storage or the cache. handleJob itself resolves to
  \<open>undefined\<close> on every path that does not throw; the embedding returns which path was
  taken (\<open>HandleExit\<close>).
\<close>

type_synonym JobExecution = "JobContext \<Rightarrow> Frame list \<Rightarrow> (error + RunResult) \<times> Frame list"

datatype HandleExit = ExitDestroyed | ExitNoJob | ExitNotAcquired | ExitCompleted | ExitFailed error

record Locals =
  l_jobRun :: "JobRun option"
  l_lockValue :: "string option"
  l_lens :: "Frame list"

definition emptyContext :: JobContext where
  "emptyContext = \<lparr>x_distributed = None, x_ttl = None, x_runOnce = None, x_custom = []\<rparr>"

text \<open>\<open>{...context, ...dynamicContext}\<close>.\<close>

definition spreadContext :: "JobContext \<Rightarrow> JobContext \<Rightarrow> JobContext" where
  "spreadContext ctx dyn =
     \<lparr>x_distributed = orKeep (x_distributed dyn) (x_distributed ctx),
      x_ttl = orKeep (x_ttl dyn) (x_ttl ctx),
      x_runOnce = orKeep (x_runOnce dyn) (x_runOnce ctx),
      x_custom = fold (\<lambda>kv. AList.update (fst kv) (snd kv)) (x_custom dyn) (x_custom ctx)\<rparr>"

definition lockTtl :: "JobContext \<Rightarrow> int" where
  "lockTtl ctx = (case x_ttl ctx of None \<Rightarrow> 30 | Some t \<Rightarrow> if t = 0 then 30 else t) * 1000"

definition lockKeyOf :: "string \<Rightarrow> string" where
  "lockKeyOf name = ''lock:'' @ name"

text \<open>Lens.captureError with a title, and serializeResult (lines 1025-1035).\<close>

definition captureError :: "error \<Rightarrow> string \<Rightarrow> Frame list \<Rightarrow> Frame list" where
  "captureError e title lens =
     lens @ [\<lparr>fr_title = title, fr_message = Some (message e), fr_level = Some ''error''\<rparr>]"

fun truthyResult :: "RunResult \<Rightarrow> bool" where
  "truthyResult RUndefined = False"
| "truthyResult (RData t s) = t"
| "truthyResult (RLens fs) = True"
| "truthyResult (RFrames fs) = True"

definition serializeResult :: "RunResult \<Rightarrow> Frame list \<Rightarrow> RunResult" where
  "serializeResult r lens =
     (case r of
        RLens fs \<Rightarrow> RFrames fs
      | _ \<Rightarrow> if \<not> truthyResult r \<and> lens \<noteq> [] then RFrames lens else r)"

text \<open>
  The \<open>try\<close> block in four parts, each with the local variables as they stand when it
  ends or throws: the JobRun record (lines 439-444), the context (446-452), the lock
  (454-479), the execution and its bookkeeping (481-495).
\<close>

definition tryCreateRun :: "Env \<Rightarrow> Job \<Rightarrow> Locals \<times> 'c World \<Rightarrow> (error + unit) \<times> Locals \<times> 'c World" where
  "tryCreateRun env job lw =
     (if j_persist job = Some True
      then (case createJobRun (e_runId env) (e_now env)
                   \<lparr>cr_job_id = j_id job, cr_result = None, cr_started = e_now env\<rparr> (store (snd lw)) of
              (r, s') \<Rightarrow>
                (case r of
                   Inl e \<Rightarrow> (Inl e, fst lw, (snd lw)\<lparr>store := s'\<rparr>)
                 | Inr run \<Rightarrow> (Inr (), (fst lw)\<lparr>l_jobRun := Some run\<rparr>, (snd lw)\<lparr>store := s'\<rparr>)))
      else (Inr (), lw))"

definition tryContext :: "'c Cache \<Rightarrow> string \<Rightarrow> Job \<Rightarrow> 'c World \<Rightarrow> (error + JobContext) \<times> 'c World" where
  "tryContext ops name job w =
     (let ctx = (case j_context job of None \<Rightarrow> emptyContext | Some c \<Rightarrow> c)
      in if x_distributed ctx = Some True
         then bindE (onCache (cache_getJobContext ops name))
                (\<lambda>dyn. returnE (case dyn of None \<Rightarrow> ctx | Some d \<Rightarrow> spreadContext ctx d)) w
         else (Inr ctx, w))"

text \<open>The lock: \<open>Inr False\<close> is the early \<open>return\<close> taken when the lock is not acquired.\<close>

definition tryLock ::
  "'c Cache \<Rightarrow> Env \<Rightarrow> string \<Rightarrow> JobContext \<Rightarrow> Locals \<times> 'c World \<Rightarrow> (error + bool) \<times> Locals \<times> 'c World" where
  "tryLock ops env name ctx lw =
     (if x_distributed ctx = Some True
      then (case cache_acquireLock ops (lockKeyOf name) (lockTtl ctx) (cache (snd lw)) of
              (r, c') \<Rightarrow>
                (case r of
                   Inl e \<Rightarrow> (Inl e, fst lw, (snd lw)\<lparr>cache := c'\<rparr>)
                 | Inr lockResult \<Rightarrow>
                     if \<not> acquired lockResult then (Inr False, fst lw, (snd lw)\<lparr>cache := c'\<rparr>)
                     else
                       let w1 = (snd lw)\<lparr>cache := c'\<rparr>;
                           w2 = (if truthy (lockValue lockResult)
                                 then w1\<lparr>mgr := (mgr w1)\<lparr>m_activeLocks :=
                                        AList.update (lockKeyOf name)
                                          \<lparr>li_lockValue = the (lockValue lockResult), li_acquiredAt = e_now env,
                                           li_ttlMs = lockTtl ctx, li_jobName = name\<rparr>
                                          (m_activeLocks (mgr w1))\<rparr>\<rparr>
                                 else w1)
                       in (Inr True, (fst lw)\<lparr>l_lockValue := lockValue lockResult\<rparr>, w2)))
      else (Inr True, lw))"

definition tryExecute ::
  "JobExecution \<Rightarrow> Env \<Rightarrow> Job \<Rightarrow> JobContext \<Rightarrow> Locals \<times> 'c World \<Rightarrow> (error + unit) \<times> Locals \<times> 'c World" where
  "tryExecute execution env job ctx lw =
     (case execution ctx (l_lens (fst lw)) of
        (r, lens') \<Rightarrow>
          let loc = (fst lw)\<lparr>l_lens := lens'\<rparr> in
          (case r of
             Inl e \<Rightarrow> (Inl e, loc, snd lw)
           | Inr result \<Rightarrow>
               (case (if x_runOnce ctx = Some True
                      then updateJob (e_now env) (j_id job) (emptyUpdateJob\<lparr>uj_enabled := Some False\<rparr>) (store (snd lw))
                      else (Inr job, store (snd lw))) of
                  (r1, s1) \<Rightarrow>
                    (case r1 of
                       Inl e \<Rightarrow> (Inl e, loc, (snd lw)\<lparr>store := s1\<rparr>)
                     | Inr j \<Rightarrow>
                         (case l_jobRun loc of
                            None \<Rightarrow> (Inr (), loc, (snd lw)\<lparr>store := s1\<rparr>)
                          | Some run \<Rightarrow>
                              (case updateJobRun (e_now env) (r_id run)
                                      \<lparr>ur_result = Some (serializeResult result lens'),
                                       ur_completed = Some (e_now env), ur_failed = None\<rparr> s1 of
                                 (r2, s2) \<Rightarrow>
                                   (case r2 of
                                      Inl e \<Rightarrow> (Inl e, loc, (snd lw)\<lparr>store := s2\<rparr>)
                                    | Inr updated \<Rightarrow> (Inr (), loc, (snd lw)\<lparr>store := s2\<rparr>))))))))"

definition tryBlock ::
  "'c Cache \<Rightarrow> JobExecution \<Rightarrow> Env \<Rightarrow> string \<Rightarrow> Job \<Rightarrow> Locals \<times> 'c World
   \<Rightarrow> (error + HandleExit) \<times> Locals \<times> 'c World" where
  "tryBlock ops execution env name job lw =
     bindE (tryCreateRun env job) (\<lambda>u.
     bindE (\<lambda>lw1. case tryContext ops name job (snd lw1) of (r, w2) \<Rightarrow> (r, fst lw1, w2)) (\<lambda>ctx.
     bindE (tryLock ops env name ctx) (\<lambda>go.
       if \<not> go then returnE ExitNotAcquired
       else bindE (tryExecute execution env job ctx) (\<lambda>u. returnE ExitCompleted)))) lw"

text \<open>The \<open>catch\<close> block (lines 497-507): an error of its own updateJobRun is thrown on.\<close>

definition catchBlock :: "Env \<Rightarrow> error \<Rightarrow> Locals \<times> 'c World \<Rightarrow> (error + HandleExit) \<times> Locals \<times> 'c World" where
  "catchBlock env e lw =
     (let loc = (fst lw)\<lparr>l_lens := captureError e ''Job execution failed'' (l_lens (fst lw))\<rparr>
      in (case l_jobRun loc of
            None \<Rightarrow> (Inr (ExitFailed e), loc, snd lw)
          | Some run \<Rightarrow>
              (case updateJobRun (e_now env) (r_id run)
                      \<lparr>ur_result = Some (RFrames (l_lens loc)), ur_completed = None,
                       ur_failed = Some (e_now env)\<rparr> (store (snd lw)) of
                 (r, s') \<Rightarrow>
                   (case r of
                      Inl e2 \<Rightarrow> (Inl e2, loc, (snd lw)\<lparr>store := s'\<rparr>)
                    | Inr updated \<Rightarrow> (Inr (ExitFailed e), loc, (snd lw)\<lparr>store := s'\<rparr>)))))"

text \<open>The \<open>finally\<close> block (lines 508-522): the entry leaves activeLocks whether the
  release resolves or rejects.\<close>

definition finallyBlock :: "'c Cache \<Rightarrow> string \<Rightarrow> Locals \<Rightarrow> 'c World \<Rightarrow> 'c World" where
  "finallyBlock ops name loc w =
     (if truthy (l_lockValue loc)
      then w\<lparr>cache := snd (cache_releaseLock ops (lockKeyOf name) (the (l_lockValue loc)) (cache w)),
             mgr := (mgr w)\<lparr>m_activeLocks := AList.delete (lockKeyOf name) (m_activeLocks (mgr w))\<rparr>\<rparr>
      else w)"

definition handleJob ::
  "'c Cache \<Rightarrow> JobExecution \<Rightarrow> Env \<Rightarrow> string \<Rightarrow> 'c World \<Rightarrow> (error + HandleExit) \<times> 'c World" where
  "handleJob ops execution env name w =
     (if m_isDestroyed (mgr w) then (Inr ExitDestroyed, w)
      else if name = [] then (Inl (ValidationError ''Job name is required''), w)
      else
        (case findJobByName name (store w) of
           None \<Rightarrow> (Inr ExitNoJob, w)
         | Some job \<Rightarrow>
             if \<not> j_enabled job \<or> j_deleted job \<noteq> None then (Inr ExitNoJob, w)
             else
               (case tryBlock ops execution env name job
                       (\<lparr>l_jobRun = None, l_lockValue = None, l_lens = []\<rparr>, w) of
                  (r, loc, w1) \<Rightarrow>
                    (case (case r of Inl e \<Rightarrow> catchBlock env e (loc, w1) | Inr x \<Rightarrow> (Inr x, loc, w1)) of
                       (r2, loc2, w2) \<Rightarrow> (r2, finallyBlock ops name loc2 w2)))))"

subsection \<open>The deadlock watchdog: detectAndHandleDeadlocks (lines 1077-1127)\<close>

definition isStaleLock :: "int \<Rightarrow> LockInfo \<Rightarrow> bool" where
  "isStaleLock now lockInfo = (now - li_acquiredAt lockInfo > li_ttlMs lockInfo * 2)"

text \<open>One round of the second loop (lines 1094-1116), for one key of \<open>staleLocks\<close>.\<close>

definition cleanStaleLock :: "'c Cache \<Rightarrow> string \<Rightarrow> 'c World \<Rightarrow> 'c World" where
  "cleanStaleLock ops lockKey w =
     (case map_of (m_activeLocks (mgr w)) lockKey of
        None \<Rightarrow> w
      | Some lockInfo \<Rightarrow>
          w\<lparr>cache := snd (cache_releaseLock ops lockKey (li_lockValue lockInfo) (cache w)),
            mgr := (mgr w)\<lparr>m_activeLocks := AList.delete lockKey (m_activeLocks (mgr w))\<rparr>\<rparr>)"

definition detectAndHandleDeadlocks :: "'c Cache \<Rightarrow> Env \<Rightarrow> 'c World \<Rightarrow> 'c World" where
  "detectAndHandleDeadlocks ops env w =
     (if m_isDestroyed (mgr w) \<or> length (m_activeLocks (mgr w)) = 0 then w
      else
        let staleLocks = map fst (filter (\<lambda>kl. isStaleLock (e_now env) (snd kl)) (m_activeLocks (mgr w)))
        in fold (cleanStaleLock ops) staleLocks w)"

subsection \<open>System names and rejected calls\<close>

text \<open>The names reserved for the system: \<open>__watch__\<close> and every name that starts with
  \<open>__\<close>, \<open>system:\<close> or \<open>internal:\<close>.\<close>

definition isSystemName :: "string \<Rightarrow> bool" where
  "isSystemName n =
     (n = WATCH_JOB_NAME \<or> startsWith n ''__'' \<or> startsWith n ''system:'' \<or> startsWith n ''internal:'')"

definition isValidationError :: "error \<Rightarrow> bool" where
  "isValidationError e = (case e of ValidationError m \<Rightarrow> True | _ \<Rightarrow> False)"

text \<open>A call made in world \<open>w\<close> is rejected when it throws and leaves the world as it
  was, the error being a validation error, or the error of the ensure-initialized gate
  when the Manager is destroyed or not initialized.\<close>

definition rejects :: "(error + 'a) \<times> 'c World \<Rightarrow> 'c World \<Rightarrow> bool" where
  "rejects res w =
     (case fst res of
        Inl e \<Rightarrow> snd res = w \<and> (isValidationError e \<or> ensureInitialized (mgr w) = Some e)
      | Inr x \<Rightarrow> False)"

subsection \<open>What a call of handleJob writes to the JobRun table\<close>




subsection \<open>Encrypting, then decrypting\<close>

text \<open>\<open>decryptQuery(encryptQuery(text))\<close> under the secret \<open>K\<close>, the random bytes of
  encryptQuery being \<open>iv\<close> and \<open>salt\<close>.\<close>

definition roundTrip :: "'t CryptoPrims \<Rightarrow> string \<Rightarrow> byte list \<Rightarrow> byte list \<Rightarrow> 't \<Rightarrow> error + 't" where
  "roundTrip P K iv salt text =
     (case encryptQuery P (Some K) iv salt text of
        Inl e \<Rightarrow> Inl e
      | Inr envelope \<Rightarrow> decryptQuery P (Some K) envelope)"

subsection \<open>Calls that follow one another\<close>

text \<open>
  \<open>later deps ops w w'\<close>: the world \<open>w'\<close> is reached from \<open>w\<close> by a sequence of calls of
  the Manager's methods, of firings of a cron timer (handleJob) and of the watchdog, each
  with its own arguments, and of writes that other replicas make to the storage and to the
  cache.
\<close>

inductive later :: "Deps \<Rightarrow> 'c Cache \<Rightarrow> 'c World \<Rightarrow> 'c World \<Rightarrow> bool"
  for deps :: Deps and ops :: "'c Cache" and w :: "'c World" where
  later_now: "later deps ops w w"
| later_initialize: "later deps ops w w1 \<Longrightarrow> later deps ops w (snd (initialize deps ops env w1))"
| later_destroy: "later deps ops w w1 \<Longrightarrow> later deps ops w (snd (destroy ops w1))"
| later_createJob: "later deps ops w w1 \<Longrightarrow> later deps ops w (snd (createJobM deps env cd w1))"
| later_updateJob: "later deps ops w w1 \<Longrightarrow> later deps ops w (snd (updateJobM deps ops env ident ud w1))"
| later_toggleJob: "later deps ops w w1 \<Longrightarrow> later deps ops w (snd (toggleJob deps ops env ident w1))"
| later_enableJob: "later deps ops w w1 \<Longrightarrow> later deps ops w (snd (enableJob deps ops env ident w1))"
| later_disableJob: "later deps ops w w1 \<Longrightarrow> later deps ops w (snd (disableJob deps ops env ident w1))"
| later_getJob: "later deps ops w w1 \<Longrightarrow> later deps ops w (snd (getJob ident w1))"
| later_deleteJob: "later deps ops w w1 \<Longrightarrow> later deps ops w (snd (deleteJobM env ident w1))"
| later_listJobs: "later deps ops w w1 \<Longrightarrow> later deps ops w (snd (listJobs flt w1))"
| later_listJobRuns: "later deps ops w w1 \<Longrightarrow> later deps ops w (snd (listJobRuns rflt w1))"
| later_getControl: "later deps ops w w1 \<Longrightarrow> later deps ops w (snd (getControlM w1))"
| later_toggleControl: "later deps ops w w1 \<Longrightarrow> later deps ops w (snd (toggleControl env w1))"
| later_purgeControl: "later deps ops w w1 \<Longrightarrow> later deps ops w (snd (purgeControl deps ops env w1))"
| later_register: "later deps ops w w1 \<Longrightarrow> register name (mgr w1) = Inr m \<Longrightarrow> later deps ops w (w1\<lparr>mgr := m\<rparr>)"
| later_unregister: "later deps ops w w1 \<Longrightarrow> later deps ops w (w1\<lparr>mgr := unregister name (mgr w1)\<rparr>)"
| later_handleJob: "later deps ops w w1 \<Longrightarrow> later deps ops w (snd (handleJob ops execution env name w1))"
| later_watchdog: "later deps ops w w1 \<Longrightarrow> later deps ops w (detectAndHandleDeadlocks ops env w1)"
| later_elsewhere: "later deps ops w w1 \<Longrightarrow> later deps ops w (w1\<lparr>store := s, cache := c\<rparr>)"

section \<open>Example states\<close>


definition exampleControl :: Control where
  "exampleControl =
     \<lparr>c_id = ''c1'', c_created_at = Some 0, c_updated_at = Some 0, c_enabled = True,
      c_log_level = None, c_replicas = [''replica-1'', ''replica-2''], c_stale = [],
      c_version = ''v0''\<rparr>"

definition exampleStorage :: InMemoryStorage where
  "exampleStorage = emptyStorage\<lparr>controls := [(''c1'', exampleControl)]\<rparr>"

definition lockedCache :: InMemoryCache where
  "lockedCache =
     snd (acquireLock ''job/x'' \<lparr>lo_ttlMs = 5000, lo_value = Some ''v''\<rparr> ''uuid-1'' 0
            (newInMemoryCache True))"

definition exampleEnv :: Env where
  "exampleEnv =
     \<lparr>e_now = 3000, e_controlId = ''c2'', e_jobId = ''job-1'', e_runId = ''run-1'',
      e_version = ''fresh-token'', e_iv = replicate 16 0, e_salt = replicate 32 0\<rparr>"

definition exampleManager :: Manager where
  "exampleManager =
     \<lparr>m_replicaId = ''replica-1'', m_hasHandler = True, m_querySecret = None, m_enabled = True,
      m_watchInterval = 5, m_releaseLocksOnShutdown = True, m_cronJobs = [], m_logLevel = ''info'',
      m_isInitialized = True, m_isDestroyed = False, m_isResetting = False,
      m_inlineHandlers = [], m_activeLocks = [], m_deadlockDetectionInterval = True\<rparr>"


text \<open>A job with \<open>persist: true\<close> and \<open>context: {distributed: true}\<close>, in a world where
  another replica holds its lock until time 32000, and in a world where the lock is free.\<close>

definition syncJob :: Job where
  "syncJob =
     \<lparr>j_id = ''job-7'', j_created_at = Some 0, j_updated_at = Some 0, j_name = ''sync'',
      j_type = INLINE, j_enabled = True,
      j_context = Some (emptyContext\<lparr>x_distributed := Some True\<rparr>),
      j_cron = Some ''* * * * *'', j_query = None, j_persist = Some True, j_silent = None,
      j_deleted = None\<rparr>"





text \<open>Dependencies that accept every cron expression, and a world whose storage holds the
  watch job that prepare creates, beside the job \<open>sync\<close>.\<close>

definition exampleDeps :: Deps where
  "exampleDeps = \<lparr>cronValid = (\<lambda>c. True), crypto = stringPrims\<rparr>"

definition watchJob :: Job where
  "watchJob =
     \<lparr>j_id = ''job-w'', j_created_at = Some 0, j_updated_at = Some 0, j_name = WATCH_JOB_NAME,
      j_type = QUERY, j_enabled = True, j_context = None, j_cron = Some ''*/5 * * * * *'',
      j_query = None, j_persist = Some False, j_silent = None, j_deleted = None\<rparr>"

definition guardedWorld :: "InMemoryCache World" where
  "guardedWorld =
     \<lparr>mgr = exampleManager,
      store = exampleStorage
                \<lparr>jobs := [(''job-7'', syncJob), (''job-w'', watchJob)],
                 jobsByName := [(''sync'', ''job-7''), (WATCH_JOB_NAME, ''job-w'')]\<rparr>,
      cache = newInMemoryCache True\<rparr>"

text \<open>A Manager that has not been initialized, and the world after destroy() and then
  initialize() have been called on it.\<close>

definition unstartedWorld :: "InMemoryCache World" where
  "unstartedWorld =
     guardedWorld\<lparr>mgr := exampleManager\<lparr>m_isInitialized := False, m_deadlockDetectionInterval := False\<rparr>\<rparr>"

definition revivedWorld :: "InMemoryCache World" where
  "revivedWorld =
     snd (initialize exampleDeps (inMemoryCache ''u'' 3000) exampleEnv
            (snd (destroy (inMemoryCache ''u'' 3000) unstartedWorld)))"

text \<open>A secret that passes validateQuerySecret.\<close>

definition strongSecret :: string where
  "strongSecret = ''Aa1!Aa1!Aa1!Aa1!Aa1!Aa1!Aa1!Aa1!''"

section \<open>Properties of the storage\<close>

lemma map_of_update_same: "map_of (AList.update k v al) k = Some v"
  by (simp add: update_conv')

lemma map_of_delete_same: "map_of (AList.delete k al) k = None"
  by (simp add: delete_conv')




text \<open>What findJobs returns comes from the storage, is not the watch job and matches the
  filter; when some job matches and the page size is not negative, the current page lies
  between 1 and the last page.\<close>

lemma slice_subset: "set (slice xs a b) \<subseteq> set xs"
  by (auto simp: slice_def Let_def dest: in_set_takeD in_set_dropD)

lemma findJobs_returns_matching:
  assumes "job \<in> set (p_data (findJobs flt s))"
  shows "job \<in> snd ` set (jobs s)" and "j_name job \<noteq> WATCH_JOB_NAME"
    and "flt = Some f \<Longrightarrow> jobMatches f job"
proof -
  let ?unwatched = "filter (\<lambda>job. j_name job \<noteq> WATCH_JOB_NAME) (map snd (jobs s))"
  let ?matching = "case flt of None \<Rightarrow> ?unwatched | Some f \<Rightarrow> filter (jobMatches f) ?unwatched"
  from assms have "job \<in> set ?matching"
    using slice_subset by (fastforce simp: findJobs_def paginate_def Let_def)
  then show "job \<in> snd ` set (jobs s)" and "j_name job \<noteq> WATCH_JOB_NAME"
    and "flt = Some f \<Longrightarrow> jobMatches f job"
    by (auto split: option.splits)
qed

lemma ceilDiv_positive:
  assumes "0 < t" and "0 < p"
  shows "\<exists>l. ceilDiv t p = Num l \<and> 1 \<le> l"
proof -
  have "(- t) div p < 0" using assms by (simp add: pos_imp_zdiv_neg_iff)
  then show ?thesis using assms by (simp add: ceilDiv_def)
qed

lemma paginate_clamped:
  assumes "xs \<noteq> []" and "\<forall>n. fpage_size = Some n \<longrightarrow> 0 \<le> n"
  shows "\<exists>c l. p_current_page (paginate xs fpage fpage_size) = Num c
             \<and> p_last_page (paginate xs fpage fpage_size) = Num l \<and> 1 \<le> c \<and> c \<le> l"
proof -
  have t: "0 < int (length xs)" using assms(1) by simp
  have p: "0 < orElse fpage_size (int (length xs))"
    using t assms(2) by (auto simp: orElse_def split: option.splits)
  from ceilDiv_positive [OF t p] obtain l where
    l: "ceilDiv (int (length xs)) (orElse fpage_size (int (length xs))) = Num l" and "1 \<le> l" by blast
  then show ?thesis by (simp add: paginate_def Let_def numOp2_def)
qed

lemma findJobs_clamped:
  assumes "0 < p_total (findJobs flt s)"
    and "\<forall>f n. flt = Some f \<and> f_page_size f = Some n \<longrightarrow> 0 \<le> n"
  shows "\<exists>c l. p_current_page (findJobs flt s) = Num c
             \<and> p_last_page (findJobs flt s) = Num l \<and> 1 \<le> c \<and> c \<le> l"
proof -
  let ?unwatched = "filter (\<lambda>job. j_name job \<noteq> WATCH_JOB_NAME) (map snd (jobs s))"
  let ?matching = "case flt of None \<Rightarrow> ?unwatched | Some f \<Rightarrow> filter (jobMatches f) ?unwatched"
  let ?size = "case flt of None \<Rightarrow> None | Some f \<Rightarrow> f_page_size f"
  have f: "findJobs flt s = paginate ?matching (case flt of None \<Rightarrow> None | Some f \<Rightarrow> f_page f) ?size"
    by (simp add: findJobs_def Let_def)
  have "?matching \<noteq> []" using assms(1) unfolding f by (auto simp: paginate_def Let_def)
  moreover have "\<forall>n. ?size = Some n \<longrightarrow> 0 \<le> n" using assms(2) by (auto split: option.splits)
  ultimately show ?thesis unfolding f by (rule paginate_clamped)
qed

text \<open>
  C8 at the failing input. On a storage with no job, \<open>findJobs()\<close> answers
  \<open>current_page = NaN\<close> and \<open>last_page = NaN\<close> (the page size defaults to the total, 0,
  and \<open>0 / 0\<close> is \<open>NaN\<close>), and \<open>findJobs({page_size: 10})\<close> answers \<open>current_page = 0\<close>
  and \<open>last_page = 0\<close>: in neither case is the current page in \<open>[1, last_page]\<close>.
\<close>

theorem findJobs_empty_current_page:
  "p_current_page (findJobs None emptyStorage) = NaN
   \<and> p_last_page (findJobs None emptyStorage) = NaN
   \<and> p_current_page (findJobs (Some (emptyJobFilter\<lparr>f_page_size := Some 10\<rparr>)) emptyStorage) = Num 0
   \<and> p_last_page (findJobs (Some (emptyJobFilter\<lparr>f_page_size := Some 10\<rparr>)) emptyStorage) = Num 0"
  by (simp add: findJobs_def emptyStorage_def paginate_def Let_def orElse_def ceilDiv_def
        numOp2_def emptyJobFilter_def)

section \<open>Properties of the cache\<close>

text \<open>
  C3 (amended). On a cache that is not destroyed, \<open>releaseLock(k, v)\<close> returns true exactly
  when a lock is stored at \<open>k\<close> with value \<open>v\<close>; it then removes the lock, and otherwise
  leaves the whole cache as it was; releasing the same \<open>(k, v)\<close> again returns false. On a
  destroyed cache it returns false and changes nothing.
\<close>

theorem releaseLock_compare_and_delete:
  "if isDestroyed c then releaseLock k v c = (False, c)
   else (fst (releaseLock k v c) = (map_option ld_value (map_of (locks c) k) = Some v))
      \<and> (fst (releaseLock k v c) \<longrightarrow> map_of (locks (snd (releaseLock k v c))) k = None)
      \<and> (\<not> fst (releaseLock k v c) \<longrightarrow> snd (releaseLock k v c) = c)
      \<and> \<not> fst (releaseLock k v (snd (releaseLock k v c)))"
  by (auto simp: releaseLock_def Let_def clearTimeout_def map_of_delete_same split: option.splits)

theorem releaseLock_compare_and_delete_witness:
  "\<not> isDestroyed lockedCache
   \<and> map_option ld_value (map_of (locks lockedCache) ''job/x'') = Some ''v''
   \<and> fst (releaseLock ''job/x'' ''v'' lockedCache)
   \<and> map_of (locks (snd (releaseLock ''job/x'' ''v'' lockedCache))) ''job/x'' = None
   \<and> \<not> fst (releaseLock ''job/x'' ''v'' (snd (releaseLock ''job/x'' ''v'' lockedCache)))
   \<and> \<not> fst (releaseLock ''job/x'' ''other'' lockedCache)
   \<and> snd (releaseLock ''job/x'' ''other'' lockedCache) = lockedCache"
proof -
  have d: "\<not> isDestroyed lockedCache"
    by (simp add: lockedCache_def acquireLock_def newInMemoryCache_def setTimeout_def Let_def)
  have v: "map_option ld_value (map_of (locks lockedCache) ''job/x'') = Some ''v''"
    by (simp add: lockedCache_def acquireLock_def newInMemoryCache_def setTimeout_def Let_def)
  from releaseLock_compare_and_delete [of lockedCache "''job/x''" "''v''"]
       releaseLock_compare_and_delete [of lockedCache "''job/x''" "''other''"] d v
  show ?thesis by simp
qed

text \<open>
  C3, the claim as stated, fails while \<open>destroy()\<close> of the cache is under way: the lock
  acquired with value \<open>v\<close> is still stored at \<open>job/x\<close>, and \<open>releaseLock\<close> with that very
  value returns false.
\<close>

theorem releaseLock_false_on_destroyed_cache:
  "map_option ld_value (map_of (locks (destroyBegin lockedCache)) ''job/x'') = Some ''v''
   \<and> \<not> fst (releaseLock ''job/x'' ''v'' (destroyBegin lockedCache))"
  by (simp add: lockedCache_def acquireLock_def newInMemoryCache_def setTimeout_def
        destroyBegin_def releaseLock_def Let_def)

text \<open>
  Two acquisitions in a row, on a cache with no lock at \<open>k\<close>: the first wins and the
  second, made before the first lock expires, is refused.
\<close>

lemma acquireLock_second_refused:
  assumes "\<not> isDestroyed c" and "map_of (locks c) k = None"
    and "now \<le> now'" and "now' < now + lo_ttlMs o1"
  shows "acquired (fst (acquireLock k o1 u1 now c))
         \<and> fst (acquireLock k o2 u2 now' (snd (acquireLock k o1 u1 now c))) = notAcquired"
  using assms
  by (simp add: acquireLock_def setTimeout_def Let_def map_of_update_same)

text \<open>
  C1 at the failing input. A lock with a TTL of 10 ms is taken at time 0. At time 15 the
  key is acquired again (the first lock is expired, its timeout has not run yet): holder B,
  until 30015. At time 16 the timeout of the first lock runs and deletes the key. At time
  17 a third caller acquires the key: holder C. B and C both hold \<open>lock:job\<close>.
\<close>

theorem acquireLock_stale_timeout_two_holders:
  "(let (rA, s1) = acquireLock ''lock:job'' \<lparr>lo_ttlMs = 10, lo_value = None\<rparr> ''uuid-A'' 0 (newInMemoryCache True);
        (rB, s2) = acquireLock ''lock:job'' \<lparr>lo_ttlMs = 30000, lo_value = None\<rparr> ''uuid-B'' 15 s1;
        s3 = fireTimer 0 16 s2;
        (rC, s4) = acquireLock ''lock:job'' \<lparr>lo_ttlMs = 30000, lo_value = None\<rparr> ''uuid-C'' 17 s3
    in rB = \<lparr>acquired = True, lockValue = Some ''uuid-B'', expiresAt = Some 30015\<rparr>
     \<and> rC = \<lparr>acquired = True, lockValue = Some ''uuid-C'', expiresAt = Some 30017\<rparr>)"
  by (simp add: acquireLock_def newInMemoryCache_def setTimeout_def fireTimer_def clearTimeout_def
        clampDelay_def Let_def)

section \<open>Properties of the Control synchronization\<close>

lemma attemptUpdate_alone:
  assumes "controls s = (c_id c, c) # rest"
  shows "attemptUpdate alone n now (c_id c) d s =
          (Inr (spreadControl c (d\<lparr>u_version := Some (c_version c), u_replicas := mergeReplicas c d\<rparr>) now),
           s\<lparr>controls := (c_id c, spreadControl c (d\<lparr>u_version := Some (c_version c), u_replicas := mergeReplicas c d\<rparr>) now) # rest\<rparr>)"
  using assms by (simp add: attemptUpdate_def getControl_def updateControl_def alone_def Let_def)

lemma updateControlWithRetry_alone:
  assumes "controls s = (c_id c, c) # rest" and "0 < maxRetries"
  shows "updateControlWithRetry alone now (c_id c) d maxRetries s =
          (Inr (spreadControl c (d\<lparr>u_version := Some (c_version c), u_replicas := mergeReplicas c d\<rparr>) now),
           s\<lparr>controls := (c_id c, spreadControl c (d\<lparr>u_version := Some (c_version c), u_replicas := mergeReplicas c d\<rparr>) now) # rest\<rparr>)"
proof -
  from assms(2) obtain k where k: "maxRetries = Suc k" by (cases maxRetries) auto
  show ?thesis
    unfolding updateControlWithRetry_def k
    by (simp add: attemptUpdate_alone [OF assms(1)])
qed

text \<open>
  What triggerReset does on a storage whose first Control row is \<open>c\<close>, when no other
  replica writes in between: the stale list becomes the replicas list, \<open>updated_at\<close> is
  refreshed, and nothing else changes. The fresh token \<open>e_version env\<close> that triggerReset
  puts in its patch is overwritten by the stored version in updateControlWithRetry
  (\<open>{...data, version: currentControl.version}\<close>) and never reaches the row.
\<close>

lemma triggerReset_alone:
  assumes "controls s = (c_id c, c) # rest"
  shows "triggerReset alone env s =
           s\<lparr>controls := (c_id c, c\<lparr>c_stale := c_replicas c, c_updated_at := Some (e_now env)\<rparr>) # rest\<rparr>"
  using assms
  by (simp add: triggerReset_def getControl_def updateControlWithRetry_alone [OF assms]
       spreadControl_def mergeReplicas_def emptyUpdateControl_def)

text \<open>
  C5 at the failing input. The Control holds replicas \<open>replica-1\<close> and \<open>replica-2\<close>, no stale
  entry and version \<open>v0\<close>; triggerReset draws the token \<open>fresh-token\<close>. Afterwards the stale
  list is the full replicas list, and the version is still \<open>v0\<close>.
\<close>

theorem triggerReset_keeps_version:
  "getControl (triggerReset alone exampleEnv exampleStorage)
     = Some (exampleControl\<lparr>c_stale := [''replica-1'', ''replica-2''], c_updated_at := Some 3000\<rparr>)
   \<and> c_version (the (getControl (triggerReset alone exampleEnv exampleStorage))) = ''v0''
   \<and> e_version exampleEnv = ''fresh-token''"
proof -
  have "controls exampleStorage = (c_id exampleControl, exampleControl) # []"
    by (simp add: exampleStorage_def emptyStorage_def exampleControl_def)
  from triggerReset_alone [OF this, of exampleEnv] show ?thesis
    by (simp add: getControl_def exampleEnv_def exampleControl_def)
qed

section \<open>Properties of the deadlock watchdog\<close>






section \<open>Properties of the execution pipeline\<close>
















section \<open>Properties of the public job API\<close>

lemma isSystemName_nonempty: "isSystemName S \<Longrightarrow> S \<noteq> []"
  by (auto simp: isSystemName_def WATCH_JOB_NAME_def)

lemma validateJobAccess_system:
  assumes "isSystemName S"
  shows "\<exists>m. validateJobAccess S op = Some (ValidationError m)"
proof -
  have ne: "S \<noteq> []" using assms by (rule isSystemName_nonempty)
  show ?thesis
  proof (cases "S = WATCH_JOB_NAME")
    case True
    then show ?thesis using ne by (simp add: validateJobAccess_def)
  next
    case False
    with assms have "startsWith S ''__'' \<or> startsWith S ''system:'' \<or> startsWith S ''internal:''"
      by (simp add: isSystemName_def)
    then have "\<exists>p. find (startsWith S) protectedPrefixes = Some p"
      by (auto simp: protectedPrefixes_def)
    then show ?thesis using ne False by (auto simp: validateJobAccess_def)
  qed
qed

lemma firstError_validation:
  "firstError cs = Some e \<Longrightarrow> \<forall>c \<in> set cs. \<forall>x. c = Some x \<longrightarrow> isValidationError x \<Longrightarrow> isValidationError e"
  by (induction cs rule: firstError.induct) auto

lemma validateJobData_validation:
  "validateJobData deps m d isUpdate = Some e \<Longrightarrow> isValidationError e"
  unfolding validateJobData_def
  by (erule firstError_validation) (auto simp: isValidationError_def split: option.splits if_splits)

lemma validateJobAccess_validation:
  "validateJobAccess n op = Some e \<Longrightarrow> isValidationError e"
  by (auto simp: validateJobAccess_def isValidationError_def split: option.splits if_splits)

lemma bindE_checkE:
  "bindE (checkE c) f s = (case c of None \<Rightarrow> f () s | Some e \<Rightarrow> (Inl e, s))"
  by (simp add: bindE_def checkE_def split: option.splits)

lemma createJobM_system:
  assumes "isSystemName (cj_name d)"
  shows "rejects (createJobM deps env d w) w"
proof -
  from validateJobAccess_system [OF assms] obtain m where
    a: "validateJobAccess (cj_name d) ''create'' = Some (ValidationError m)" by blast
  show ?thesis
    using a
    by (auto simp: createJobM_def bindE_checkE rejects_def isValidationError_def
          split: option.splits dest: validateJobData_validation)
qed

lemma updateJobM_rename_system:
  assumes "isSystemName S" and "uj_name d = Some S"
  shows "rejects (updateJobM deps ops env ident d w) w"
proof -
  from validateJobAccess_system [OF assms(1)] obtain m where
    a: "validateJobAccess S ''update'' = Some (ValidationError m)" by blast
  have t: "truthy (uj_name d)" using assms isSystemName_nonempty by (simp add: truthy_def)
  show ?thesis
    using a t assms(2)
    by (auto simp: updateJobM_def bindE_checkE rejects_def Let_def isValidationError_def
          split: option.splits dest: validateJobData_validation validateJobAccess_validation)
qed

lemma updateJobM_on_system:
  assumes "isSystemName (j_name job)" and "findJob ident (store w) = Some job"
  shows "rejects (updateJobM deps ops env ident d w) w"
proof -
  from validateJobAccess_system [OF assms(1)] obtain m where
    a: "validateJobAccess (j_name job) ''update'' = Some (ValidationError m)" by blast
  show ?thesis
    using a assms(2)
    by (auto simp: updateJobM_def bindE_checkE rejects_def Let_def isValidationError_def
          split: option.splits dest: validateJobData_validation)
qed

lemma lookupForChange_system:
  assumes "isSystemName (j_name job)" and "findJob ident (store w) = Some job"
  shows "\<exists>e. lookupForChange idMessage op ident w = (Inl e, w)
             \<and> (isValidationError e \<or> ensureInitialized (mgr w) = Some e)"
proof -
  from validateJobAccess_system [OF assms(1)] obtain m where
    a: "validateJobAccess (j_name job) op = Some (ValidationError m)" by blast
  show ?thesis
    using a assms(2)
    by (auto simp: lookupForChange_def bindE_checkE isValidationError_def split: option.splits)
qed

lemma changes_on_system:
  assumes "isSystemName (j_name job)" and "findJob ident (store w) = Some job"
  shows "rejects (toggleJob deps ops env ident w) w"
    and "rejects (enableJob deps ops env ident w) w"
    and "rejects (disableJob deps ops env ident w) w"
    and "rejects (deleteJobM env ident w) w"
proof -
  from lookupForChange_system [OF assms, of "''Job id is required''" "''toggle''"]
  obtain e where l: "lookupForChange ''Job id is required'' ''toggle'' ident w = (Inl e, w)"
    and p: "isValidationError e \<or> ensureInitialized (mgr w) = Some e" by blast
  show "rejects (toggleJob deps ops env ident w) w"
    using p l by (simp add: toggleJob_def rejects_def bindE_def)
next
  from lookupForChange_system [OF assms, of "''Job ID is required''" "''enable''"]
  obtain e where l: "lookupForChange ''Job ID is required'' ''enable'' ident w = (Inl e, w)"
    and p: "isValidationError e \<or> ensureInitialized (mgr w) = Some e" by blast
  show "rejects (enableJob deps ops env ident w) w"
    using p l by (simp add: enableJob_def rejects_def bindE_def)
next
  from lookupForChange_system [OF assms, of "''Job ID is required''" "''disable''"]
  obtain e where l: "lookupForChange ''Job ID is required'' ''disable'' ident w = (Inl e, w)"
    and p: "isValidationError e \<or> ensureInitialized (mgr w) = Some e" by blast
  show "rejects (disableJob deps ops env ident w) w"
    using p l by (simp add: disableJob_def rejects_def bindE_def)
next
  from lookupForChange_system [OF assms, of "''Job ID is required''" "''delete''"]
  obtain e where l: "lookupForChange ''Job ID is required'' ''delete'' ident w = (Inl e, w)"
    and p: "isValidationError e \<or> ensureInitialized (mgr w) = Some e" by blast
  show "rejects (deleteJobM env ident w) w"
    using p l by (simp add: deleteJobM_def rejects_def bindE_def)
qed

lemma listJobs_no_watch:
  assumes "listJobs flt w = (Inr r, w')"
  shows "\<forall>job \<in> set (p_data r). j_name job \<noteq> WATCH_JOB_NAME"
  using assms
  by (auto simp: listJobs_def bindE_checkE Let_def isWatchJob_def split: option.splits)

lemma getJob_watch:
  assumes "map_of (jobs (store w)) ident = Some job" and "j_name job = WATCH_JOB_NAME"
    and "ident \<noteq> []" and "ensureInitialized (mgr w) = None"
  shows "getJob ident w = (Inr None, w)"
  using assms
  by (auto simp: getJob_def bindE_checkE findJob_def isWatchJob_def split: option.splits)

text \<open>
  Claim C4. Let \<open>S\<close> be a system name: \<open>__watch__\<close>, or a name that starts with \<open>__\<close>,
  \<open>system:\<close> or \<open>internal:\<close>. Then createJob with the name \<open>S\<close> is rejected, updateJob that
  renames a job to \<open>S\<close> is rejected, and on a job named \<open>S\<close> that the storage finds under
  its id, updateJob, toggleJob, enableJob, disableJob and deleteJob are rejected: each
  throws a validation error (the error of the ensure-initialized gate when the Manager is
  destroyed or not initialized) and leaves storage, cache and Manager as they were. For
  every filter, no job that listJobs returns is named \<open>__watch__\<close>, and on an initialized
  Manager getJob on the id of a job named \<open>__watch__\<close> returns null.
\<close>

theorem system_names_are_protected:
  assumes "isSystemName S"
  shows "(cj_name cd = S \<longrightarrow> rejects (createJobM deps env cd w) w)
       \<and> (uj_name ud = Some S \<longrightarrow> rejects (updateJobM deps ops env ident ud w) w)
       \<and> (findJob ident (store w) = Some job \<and> j_name job = S \<longrightarrow>
            rejects (updateJobM deps ops env ident ud w) w
          \<and> rejects (toggleJob deps ops env ident w) w
          \<and> rejects (enableJob deps ops env ident w) w
          \<and> rejects (disableJob deps ops env ident w) w
          \<and> rejects (deleteJobM env ident w) w)
       \<and> (listJobs flt w = (Inr r, w') \<longrightarrow> (\<forall>j \<in> set (p_data r). j_name j \<noteq> WATCH_JOB_NAME))
       \<and> (map_of (jobs (store w)) ident = Some job \<and> j_name job = WATCH_JOB_NAME \<and> ident \<noteq> []
            \<and> ensureInitialized (mgr w) = None \<longrightarrow> getJob ident w = (Inr None, w))"
proof (intro conjI impI)
  assume "cj_name cd = S"
  with assms show "rejects (createJobM deps env cd w) w" by (simp add: createJobM_system)
next
  assume "uj_name ud = Some S"
  with assms show "rejects (updateJobM deps ops env ident ud w) w"
    by (rule updateJobM_rename_system)
next
  assume h: "findJob ident (store w) = Some job \<and> j_name job = S"
  with assms have s: "isSystemName (j_name job)" and f: "findJob ident (store w) = Some job"
    by simp_all
  show "rejects (updateJobM deps ops env ident ud w) w" using s f by (rule updateJobM_on_system)
  show "rejects (toggleJob deps ops env ident w) w" using s f by (rule changes_on_system(1))
  show "rejects (enableJob deps ops env ident w) w" using s f by (rule changes_on_system(2))
  show "rejects (disableJob deps ops env ident w) w" using s f by (rule changes_on_system(3))
  show "rejects (deleteJobM env ident w) w" using s f by (rule changes_on_system(4))
next
  assume "listJobs flt w = (Inr r, w')"
  then show "\<forall>j \<in> set (p_data r). j_name j \<noteq> WATCH_JOB_NAME" by (rule listJobs_no_watch)
next
  assume "map_of (jobs (store w)) ident = Some job \<and> j_name job = WATCH_JOB_NAME \<and> ident \<noteq> []
            \<and> ensureInitialized (mgr w) = None"
  then show "getJob ident w = (Inr None, w)" by (simp add: getJob_watch)
qed

lemma guardedWorld_initialized: "ensureInitialized (mgr guardedWorld) = None"
  by (simp add: ensureInitialized_def guardedWorld_def exampleManager_def)

lemma guardedWorld_listJobs: "\<exists>r. listJobs None guardedWorld = (Inr r, guardedWorld)"
  by (simp add: listJobs_def bindE_checkE guardedWorld_initialized Let_def)

theorem system_names_are_protected_witness:
  "isSystemName WATCH_JOB_NAME
   \<and> findJob ''job-w'' (store guardedWorld) = Some watchJob
   \<and> rejects (createJobM exampleDeps exampleEnv (watchJobData exampleManager) guardedWorld) guardedWorld
   \<and> rejects (updateJobM exampleDeps (inMemoryCache ''u'' 3000) exampleEnv ''job-7''
                (emptyUpdateJob\<lparr>uj_name := Some WATCH_JOB_NAME\<rparr>) guardedWorld) guardedWorld
   \<and> rejects (updateJobM exampleDeps (inMemoryCache ''u'' 3000) exampleEnv ''job-w''
                (emptyUpdateJob\<lparr>uj_enabled := Some False\<rparr>) guardedWorld) guardedWorld
   \<and> rejects (toggleJob exampleDeps (inMemoryCache ''u'' 3000) exampleEnv ''job-w'' guardedWorld) guardedWorld
   \<and> rejects (enableJob exampleDeps (inMemoryCache ''u'' 3000) exampleEnv ''job-w'' guardedWorld) guardedWorld
   \<and> rejects (disableJob exampleDeps (inMemoryCache ''u'' 3000) exampleEnv ''job-w'' guardedWorld) guardedWorld
   \<and> rejects (deleteJobM exampleEnv ''job-w'' guardedWorld) guardedWorld
   \<and> (\<exists>r. listJobs None guardedWorld = (Inr r, guardedWorld)
          \<and> list_all (\<lambda>j. j_name j \<noteq> WATCH_JOB_NAME) (p_data r))
   \<and> getJob ''job-w'' guardedWorld = (Inr None, guardedWorld)"
proof -
  have s: "isSystemName WATCH_JOB_NAME" by (simp add: isSystemName_def)
  have m: "map_of (jobs (store guardedWorld)) ''job-w'' = Some watchJob"
    by (simp add: guardedWorld_def)
  have f: "findJob ''job-w'' (store guardedWorld) = Some watchJob"
    by (simp add: findJob_def m watchJob_def)
  have n: "j_name watchJob = WATCH_JOB_NAME" by (simp add: watchJob_def)
  note g = guardedWorld_initialized
  have c: "cj_name (watchJobData exampleManager) = WATCH_JOB_NAME" by (simp add: watchJobData_def)
  from guardedWorld_listJobs obtain r where
    l: "listJobs None guardedWorld = (Inr r, guardedWorld)" by blast
  from system_names_are_protected [OF s, where cd = "watchJobData exampleManager"
      and deps = exampleDeps and env = exampleEnv and w = guardedWorld
      and ud = "emptyUpdateJob\<lparr>uj_name := Some WATCH_JOB_NAME\<rparr>"
      and ops = "inMemoryCache ''u'' 3000" and ident = "''job-7''"] c
  have a: "rejects (createJobM exampleDeps exampleEnv (watchJobData exampleManager) guardedWorld) guardedWorld
     \<and> rejects (updateJobM exampleDeps (inMemoryCache ''u'' 3000) exampleEnv ''job-7''
                (emptyUpdateJob\<lparr>uj_name := Some WATCH_JOB_NAME\<rparr>) guardedWorld) guardedWorld"
    by simp
  from system_names_are_protected [OF s, where w = guardedWorld
      and deps = exampleDeps and env = exampleEnv
      and ud = "emptyUpdateJob\<lparr>uj_enabled := Some False\<rparr>"
      and ops = "inMemoryCache ''u'' 3000" and ident = "''job-w''" and job = watchJob
      and flt = None and r = r and w' = guardedWorld] f n m g l
  have b: "rejects (updateJobM exampleDeps (inMemoryCache ''u'' 3000) exampleEnv ''job-w''
                (emptyUpdateJob\<lparr>uj_enabled := Some False\<rparr>) guardedWorld) guardedWorld
   \<and> rejects (toggleJob exampleDeps (inMemoryCache ''u'' 3000) exampleEnv ''job-w'' guardedWorld) guardedWorld
   \<and> rejects (enableJob exampleDeps (inMemoryCache ''u'' 3000) exampleEnv ''job-w'' guardedWorld) guardedWorld
   \<and> rejects (disableJob exampleDeps (inMemoryCache ''u'' 3000) exampleEnv ''job-w'' guardedWorld) guardedWorld
   \<and> rejects (deleteJobM exampleEnv ''job-w'' guardedWorld) guardedWorld
   \<and> list_all (\<lambda>j. j_name j \<noteq> WATCH_JOB_NAME) (p_data r)
   \<and> getJob ''job-w'' guardedWorld = (Inr None, guardedWorld)"
    by (simp add: list_all_iff)
  from s f a b l show ?thesis by blast
qed


section \<open>Properties of the life cycle\<close>

lemma scheduleJob_destroyed: "m_isDestroyed (scheduleJob deps job m) = m_isDestroyed m"
  by (simp add: scheduleJob_def Let_def)

lemma fold_scheduleJob_destroyed: "m_isDestroyed (fold (scheduleJob deps) js m) = m_isDestroyed m"
  by (induction js arbitrary: m) (simp_all add: scheduleJob_destroyed)

lemma initializeJobs_destroyed: "m_isDestroyed (mgr (initializeJobs deps w)) = m_isDestroyed (mgr w)"
  by (simp add: initializeJobs_def Let_def fold_scheduleJob_destroyed)

lemma performReplicaHealthCheck_mgr: "mgr (snd (performReplicaHealthCheck ops rs w)) = mgr w"
  by (simp add: performReplicaHealthCheck_def Let_def split: option.splits prod.splits)

lemma onStore_mgr: "mgr (snd (onStore g w)) = mgr w"
  by (simp add: onStore_def split: prod.splits)

lemma onCache_mgr: "mgr (snd (onCache g w)) = mgr w"
  by (simp add: onCache_def split: prod.splits)

lemma bindE_keeps:
  assumes "\<And>s. m_isDestroyed (mgr (snd (m s))) = m_isDestroyed (mgr s)"
    and "\<And>a s. m_isDestroyed (mgr (snd (f a s))) = m_isDestroyed (mgr s)"
  shows "m_isDestroyed (mgr (snd (bindE m f s))) = m_isDestroyed (mgr s)"
proof (cases "m s")
  case (Pair r s')
  with assms(1) [of s] have k: "m_isDestroyed (mgr s') = m_isDestroyed (mgr s)" by simp
  show ?thesis
  proof (cases r)
    case (Inl e)
    with Pair k show ?thesis by (simp add: bindE_def)
  next
    case (Inr a)
    with Pair k assms(2) [of a s'] show ?thesis by (simp add: bindE_def)
  qed
qed

lemma bindE_onStore_keeps:
  "m_isDestroyed (mgr (snd (bindE (onStore g) (\<lambda>c. returnE x) s))) = m_isDestroyed (mgr s)"
  by (rule bindE_keeps) (simp_all add: onStore_mgr returnE_def)

lemma prepare_destroyed: "m_isDestroyed (mgr (snd (prepare deps ops env w))) = m_isDestroyed (mgr w)"
  unfolding prepare_def
  apply (rule bindE_keeps)
   apply (simp add: onStore_mgr split: option.splits)
  subgoal for control w1
    apply (cases "performReplicaHealthCheck ops (c_replicas control) w1")
    subgoal for checked w2
      using performReplicaHealthCheck_mgr [of ops "c_replicas control" w1, symmetric]
      apply (simp add: Let_def)
      apply (intro conjI impI bindE_keeps)
      apply (simp_all add: onStore_mgr bindE_onStore_keeps initializeJobs_destroyed split: option.splits)
      done
    done
  done

lemma initialize_destroyed:
  "m_isDestroyed (mgr (snd (initialize deps ops env w))) = m_isDestroyed (mgr w)"
proof (cases "m_isInitialized (mgr w)")
  case True
  then show ?thesis by (simp add: initialize_def)
next
  case False
  have "m_isDestroyed (mgr (snd (bindE (prepare deps ops env) (\<lambda>u w1.
          (Inr (), w1\<lparr>mgr := (mgr w1)\<lparr>m_deadlockDetectionInterval := True, m_isInitialized := True\<rparr>\<rparr>)) w)))
        = m_isDestroyed (mgr w)"
    by (rule bindE_keeps) (simp_all add: prepare_destroyed)
  with False show ?thesis by (simp add: initialize_def)
qed

lemma gate_destroyed:
  "m_isDestroyed m \<Longrightarrow> ensureInitialized m = Some (Error ''Manager has been destroyed.'')"
  by (simp add: ensureInitialized_def)

lemma lookupForChange_destroyed:
  "m_isDestroyed (mgr w) \<Longrightarrow>
   lookupForChange idMessage op ident w = (Inl (Error ''Manager has been destroyed.''), w)"
  by (simp add: lookupForChange_def bindE_checkE gate_destroyed)

lemma gated_destroyed:
  assumes "m_isDestroyed (mgr w)"
  shows "createJobM deps env cd w = (Inl (Error ''Manager has been destroyed.''), w)"
    and "updateJobM deps ops env ident ud w = (Inl (Error ''Manager has been destroyed.''), w)"
    and "toggleJob deps ops env ident w = (Inl (Error ''Manager has been destroyed.''), w)"
    and "enableJob deps ops env ident w = (Inl (Error ''Manager has been destroyed.''), w)"
    and "disableJob deps ops env ident w = (Inl (Error ''Manager has been destroyed.''), w)"
    and "getJob ident w = (Inl (Error ''Manager has been destroyed.''), w)"
    and "deleteJobM env ident w = (Inl (Error ''Manager has been destroyed.''), w)"
    and "listJobs flt w = (Inl (Error ''Manager has been destroyed.''), w)"
    and "listJobRuns rflt w = (Inl (Error ''Manager has been destroyed.''), w)"
    and "getControlM w = (Inl (Error ''Manager has been destroyed.''), w)"
    and "toggleControl env w = (Inl (Error ''Manager has been destroyed.''), w)"
    and "purgeControl deps ops env w = (Inl (Error ''Manager has been destroyed.''), w)"
proof -
  note g = gate_destroyed [OF assms] and l = lookupForChange_destroyed [OF assms]
  show "createJobM deps env cd w = (Inl (Error ''Manager has been destroyed.''), w)"
    by (simp add: createJobM_def bindE_checkE g)
  show "updateJobM deps ops env ident ud w = (Inl (Error ''Manager has been destroyed.''), w)"
    by (simp add: updateJobM_def bindE_checkE g)
  show "toggleJob deps ops env ident w = (Inl (Error ''Manager has been destroyed.''), w)"
    by (simp add: toggleJob_def bindE_def l)
  show "enableJob deps ops env ident w = (Inl (Error ''Manager has been destroyed.''), w)"
    by (simp add: enableJob_def bindE_def l)
  show "disableJob deps ops env ident w = (Inl (Error ''Manager has been destroyed.''), w)"
    by (simp add: disableJob_def bindE_def l)
  show "getJob ident w = (Inl (Error ''Manager has been destroyed.''), w)"
    by (simp add: getJob_def bindE_checkE g)
  show "deleteJobM env ident w = (Inl (Error ''Manager has been destroyed.''), w)"
    by (simp add: deleteJobM_def bindE_def l)
  show "listJobs flt w = (Inl (Error ''Manager has been destroyed.''), w)"
    by (simp add: listJobs_def bindE_checkE g)
  show "listJobRuns rflt w = (Inl (Error ''Manager has been destroyed.''), w)"
    by (simp add: listJobRuns_def bindE_checkE g)
  show "getControlM w = (Inl (Error ''Manager has been destroyed.''), w)"
    by (simp add: getControlM_def bindE_checkE g)
  show "toggleControl env w = (Inl (Error ''Manager has been destroyed.''), w)"
    by (simp add: toggleControl_def bindE_checkE g)
  show "purgeControl deps ops env w = (Inl (Error ''Manager has been destroyed.''), w)"
    by (simp add: purgeControl_def bindE_checkE g)
qed

lemma destroy_sets_flag: "m_isDestroyed (mgr (snd (destroy ops w)))"
  by (simp add: destroy_def Let_def onCache_mgr split: option.splits)

lemma destroy_again: "m_isDestroyed (mgr w) \<Longrightarrow> destroy ops w = (Inr (), w)"
  by (simp add: destroy_def)

lemma register_destroyed: "register name m = Inr m' \<Longrightarrow> m_isDestroyed m' = m_isDestroyed m"
  by (auto simp: register_def split: if_splits)

lemma later_destroyed:
  assumes "later deps ops w w'" and "m_isDestroyed (mgr w)"
  shows "m_isDestroyed (mgr w')"
  using assms
proof (induction rule: later.induct)
  case later_now
  then show ?case by simp
next
  case (later_initialize w1 env)
  then show ?case by (simp add: initialize_destroyed)
next
  case (later_register w1 name m)
  then show ?case by (simp add: register_destroyed)
next
  case (later_unregister w1 name)
  then show ?case by (simp add: unregister_def)
next
  case (later_handleJob w1 execution env name)
  then show ?case by (simp add: handleJob_def)
next
  case (later_watchdog w1 env)
  then show ?case by (simp add: detectAndHandleDeadlocks_def)
next
  case (later_elsewhere w1 c s)
  then show ?case by simp
qed (simp_all add: gated_destroyed destroy_again)

text \<open>
  Claim C10. Take a Manager on which destroy() has been called, in any world, and any
  sequence of calls that follows it: calls of initialize, of destroy, of the public API, of
  register and unregister, firings of cron timers and of the watchdog, writes of other
  replicas. In the world reached, each of createJob, updateJob, toggleJob, enableJob,
  disableJob, getJob, deleteJob, listJobs, listJobRuns, getControl and toggleControl
  throws \<open>Manager has been destroyed.\<close> and changes nothing, and destroy returns without
  error and changes nothing: no lock is released and the cache is not cleaned again.
\<close>

theorem destroy_is_final:
  assumes "later deps ops (snd (destroy ops w0)) w"
  shows "createJobM deps env cd w = (Inl (Error ''Manager has been destroyed.''), w)
       \<and> updateJobM deps ops env ident ud w = (Inl (Error ''Manager has been destroyed.''), w)
       \<and> toggleJob deps ops env ident w = (Inl (Error ''Manager has been destroyed.''), w)
       \<and> enableJob deps ops env ident w = (Inl (Error ''Manager has been destroyed.''), w)
       \<and> disableJob deps ops env ident w = (Inl (Error ''Manager has been destroyed.''), w)
       \<and> getJob ident w = (Inl (Error ''Manager has been destroyed.''), w)
       \<and> deleteJobM env ident w = (Inl (Error ''Manager has been destroyed.''), w)
       \<and> listJobs flt w = (Inl (Error ''Manager has been destroyed.''), w)
       \<and> listJobRuns rflt w = (Inl (Error ''Manager has been destroyed.''), w)
       \<and> getControlM w = (Inl (Error ''Manager has been destroyed.''), w)
       \<and> toggleControl env w = (Inl (Error ''Manager has been destroyed.''), w)
       \<and> destroy ops w = (Inr (), w)"
proof -
  have "m_isDestroyed (mgr w)"
    using assms destroy_sets_flag by (rule later_destroyed)
  then show ?thesis by (simp add: gated_destroyed destroy_again)
qed

lemma revivedWorld_initialized: "m_isInitialized (mgr revivedWorld)"
  by code_simp

theorem destroy_is_final_witness:
  "later exampleDeps (inMemoryCache ''u'' 3000) (snd (destroy (inMemoryCache ''u'' 3000) unstartedWorld)) revivedWorld
   \<and> m_isInitialized (mgr revivedWorld)
   \<and> getJob ''job-7'' revivedWorld = (Inl (Error ''Manager has been destroyed.''), revivedWorld)
   \<and> listJobs None revivedWorld = (Inl (Error ''Manager has been destroyed.''), revivedWorld)
   \<and> toggleControl exampleEnv revivedWorld = (Inl (Error ''Manager has been destroyed.''), revivedWorld)
   \<and> destroy (inMemoryCache ''u'' 3000) revivedWorld = (Inr (), revivedWorld)"
proof -
  have l: "later exampleDeps (inMemoryCache ''u'' 3000)
             (snd (destroy (inMemoryCache ''u'' 3000) unstartedWorld)) revivedWorld"
    unfolding revivedWorld_def by (rule later_initialize) (rule later_now)
  from destroy_is_final [OF l, of exampleEnv _ "''job-7''" _ None] l revivedWorld_initialized
  show ?thesis by simp
qed


section \<open>Properties of the crypto envelope\<close>

lemma valid_secret_truthy: "validateQuerySecret K = None \<Longrightarrow> truthy (Some K)"
  by (auto simp: validateQuerySecret_def truthy_def split: if_splits)

lemma encryptQuery_layout:
  assumes "meetsContracts P" and "truthy K"
  shows "encryptQuery P K iv salt text =
           Inr (base64Encode P (iv @ salt @ aesCtrEncrypt P (pbkdf2Sync P (the K) salt) iv (utf8Encode P text)))"
  using assms by (simp add: encryptQuery_def meetsContracts_def Let_def)

lemma decryptQuery_envelope:
  assumes "meetsContracts P" and "truthy K" and "length iv = 16" and "length salt = 32"
  shows "decryptQuery P K (base64Encode P (iv @ salt @ ct)) =
           Inr (utf8Decode P (aesCtrDecrypt P (pbkdf2Sync P (the K) salt) iv ct))"
  using assms by (simp add: decryptQuery_def meetsContracts_def Let_def)

lemma base64_injective:
  assumes "meetsContracts P" and "base64Encode P a = base64Encode P b"
  shows "a = b"
proof -
  from assms(2) have "base64Decode P (base64Encode P a) = base64Decode P (base64Encode P b)" by simp
  with assms(1) show ?thesis by (simp add: meetsContracts_def)
qed

lemma roundTrip_recodes:
  assumes "meetsContracts P" and "validateQuerySecret K = None"
    and "length iv = 16" and "length salt = 32"
  shows "roundTrip P K iv salt text = Inr (utf8Decode P (utf8Encode P text))"
proof -
  have t: "truthy (Some K)" using assms(2) by (rule valid_secret_truthy)
  have "aesCtrDecrypt P (pbkdf2Sync P K salt) iv
          (aesCtrEncrypt P (pbkdf2Sync P K salt) iv (utf8Encode P text)) = utf8Encode P text"
    using assms(1) by (simp add: meetsContracts_def)
  then show ?thesis
    by (simp add: roundTrip_def encryptQuery_layout [OF assms(1) t]
          decryptQuery_envelope [OF assms(1) t assms(3) assms(4)])
qed

lemma envelopes_differ:
  assumes "meetsContracts P" and "validateQuerySecret K = None"
    and "length iv = 16" and "length salt = 32" and "length iv' = 16" and "length salt' = 32"
    and "iv' \<noteq> iv \<or> salt' \<noteq> salt"
  shows "encryptQuery P (Some K) iv' salt' text \<noteq> encryptQuery P (Some K) iv salt text"
proof
  assume eq: "encryptQuery P (Some K) iv' salt' text = encryptQuery P (Some K) iv salt text"
  have t: "truthy (Some K)" using assms(2) by (rule valid_secret_truthy)
  let ?c' = "aesCtrEncrypt P (pbkdf2Sync P K salt') iv' (utf8Encode P text)"
  let ?c = "aesCtrEncrypt P (pbkdf2Sync P K salt) iv (utf8Encode P text)"
  from eq have "base64Encode P (iv' @ salt' @ ?c') = base64Encode P (iv @ salt @ ?c)"
    by (simp add: encryptQuery_layout [OF assms(1) t])
  with assms(1) have "iv' @ salt' @ ?c' = iv @ salt @ ?c" by (rule base64_injective)
  with assms(3-6) have "iv' = iv \<and> salt' = salt" by simp
  with assms(7) show False by simp
qed

text \<open>UTF-8 encoding followed by decoding gives a well-formed string back.\<close>

lemma unat_byte: "n < 256 \<Longrightarrow> unat (of_nat n :: byte) = n"
  by (simp add: unat_of_nat)

lemma shift64: "(a :: nat) div 64 * 4096 + a mod 64 * 64 = a * 64"
proof -
  have "a div 64 * 4096 + a mod 64 * 64 = (a div 64 * 64 + a mod 64) * 64"
    by (simp only: add_mult_distrib mult.assoc)
  then show ?thesis by simp
qed

lemma recompose3: "cp div 4096 * 4096 + (cp div 64) mod 64 * 64 + cp mod 64 = (cp :: nat)"
proof -
  have "cp div 4096 = cp div 64 div 64" by (simp add: div_mult2_eq)
  with shift64 [of "cp div 64"] show ?thesis by simp
qed

lemma recompose4:
  "cp div 262144 * 262144 + (cp div 4096) mod 64 * 4096 + (cp div 64) mod 64 * 64 + cp mod 64 = (cp :: nat)"
proof -
  have d: "cp div 262144 = cp div 4096 div 64" by (simp add: div_mult2_eq)
  have "cp div 4096 div 64 * 262144 + (cp div 4096) mod 64 * 4096 = (cp div 4096 div 64 * 4096 + (cp div 4096) mod 64 * 64) * 64"
    by (simp only: add_mult_distrib mult.assoc)
  also have "\<dots> = cp div 4096 * 4096" by (simp only: shift64)
  finally have "cp div 262144 * 262144 + (cp div 4096) mod 64 * 4096 = cp div 4096 * 4096"
    by (simp only: d)
  with recompose3 [of cp] show ?thesis by simp
qed

lemma decode_two_bytes:
  assumes "unat b0 = n0" and "194 \<le> n0" and "n0 < 224"
    and "unat b1 = n1" and "128 \<le> n1" and "n1 < 192"
  shows "nodeUtf8Decode (b0 # b1 # bs) = unitsOf ((n0 - 192) * 64 + (n1 - 128)) @ nodeUtf8Decode bs"
  using assms by (simp add: decodeMulti_def isContinuation_def)

lemma decode_three_bytes:
  assumes "unat b0 = n0" and "224 \<le> n0" and "n0 < 240"
    and "unat b1 = n1" and "128 \<le> n1" and "n1 < 192"
    and "unat b2 = n2" and "128 \<le> n2" and "n2 < 192"
    and "cp = (n0 - 224) * 4096 + (n1 - 128) * 64 + (n2 - 128)"
    and "2048 \<le> cp" and "\<not> isHighSurrogate cp" and "\<not> isLowSurrogate cp"
  shows "nodeUtf8Decode (b0 # b1 # b2 # bs) = unitsOf cp @ nodeUtf8Decode bs"
  using assms by (simp add: decodeMulti_def isContinuation_def Let_def)

lemma decode_four_bytes:
  assumes "unat b0 = n0" and "240 \<le> n0" and "n0 < 245"
    and "unat b1 = n1" and "128 \<le> n1" and "n1 < 192"
    and "unat b2 = n2" and "128 \<le> n2" and "n2 < 192"
    and "unat b3 = n3" and "128 \<le> n3" and "n3 < 192"
    and "cp = (n0 - 240) * 262144 + (n1 - 128) * 4096 + (n2 - 128) * 64 + (n3 - 128)"
    and "65536 \<le> cp" and "cp < 1114112"
  shows "nodeUtf8Decode (b0 # b1 # b2 # b3 # bs) = unitsOf cp @ nodeUtf8Decode bs"
  using assms by (simp add: decodeMulti_def isContinuation_def Let_def)

lemma decode_one:
  assumes "cp < 128"
  shows "nodeUtf8Decode (encodeScalar cp @ bs) = unitsOf cp @ nodeUtf8Decode bs"
proof -
  define b0 :: byte where "b0 = of_nat cp"
  have enc: "encodeScalar cp = [b0]" using assms by (simp add: encodeScalar_def b0_def)
  have a: "unat b0 = cp" unfolding b0_def using assms by (intro unat_byte) simp
  show ?thesis using assms a by (simp add: enc unitsOf_def)
qed

lemma decode_two:
  assumes "128 \<le> cp" and "cp < 2048"
  shows "nodeUtf8Decode (encodeScalar cp @ bs) = unitsOf cp @ nodeUtf8Decode bs"
proof -
  define b0 :: byte where "b0 = of_nat (192 + cp div 64)"
  define b1 :: byte where "b1 = of_nat (128 + cp mod 64)"
  have enc: "encodeScalar cp = [b0, b1]" using assms by (simp add: encodeScalar_def b0_def b1_def)
  have a: "unat b0 = 192 + cp div 64" unfolding b0_def using assms by (intro unat_byte) arith
  have b: "unat b1 = 128 + cp mod 64" unfolding b1_def by (intro unat_byte) arith
  have "nodeUtf8Decode (b0 # b1 # bs)
          = unitsOf ((192 + cp div 64 - 192) * 64 + (128 + cp mod 64 - 128)) @ nodeUtf8Decode bs"
    using a _ _ b
  proof (rule decode_two_bytes)
    show "194 \<le> 192 + cp div 64" using assms by arith
    show "192 + cp div 64 < 224" using assms by arith
    show "128 \<le> 128 + cp mod 64" by simp
    show "128 + cp mod 64 < 192" by simp
  qed
  then show ?thesis by (simp add: enc)
qed

lemma decode_three:
  assumes "2048 \<le> cp" and "cp < 65536" and "\<not> isHighSurrogate cp" and "\<not> isLowSurrogate cp"
  shows "nodeUtf8Decode (encodeScalar cp @ bs) = unitsOf cp @ nodeUtf8Decode bs"
proof -
  define b0 :: byte where "b0 = of_nat (224 + cp div 4096)"
  define b1 :: byte where "b1 = of_nat (128 + (cp div 64) mod 64)"
  define b2 :: byte where "b2 = of_nat (128 + cp mod 64)"
  have enc: "encodeScalar cp = [b0, b1, b2]"
    using assms by (simp add: encodeScalar_def b0_def b1_def b2_def)
  have a: "unat b0 = 224 + cp div 4096" unfolding b0_def using assms by (intro unat_byte) arith
  have b: "unat b1 = 128 + (cp div 64) mod 64" unfolding b1_def by (intro unat_byte) arith
  have c: "unat b2 = 128 + cp mod 64" unfolding b2_def by (intro unat_byte) arith
  have "nodeUtf8Decode (b0 # b1 # b2 # bs) = unitsOf cp @ nodeUtf8Decode bs"
    using a _ _ b _ _ c
  proof (rule decode_three_bytes)
    show "224 \<le> 224 + cp div 4096" by simp
    show "224 + cp div 4096 < 240" using assms by arith
    show "128 \<le> 128 + (cp div 64) mod 64" by simp
    show "128 + (cp div 64) mod 64 < 192" by simp
    show "128 \<le> 128 + cp mod 64" by simp
    show "128 + cp mod 64 < 192" by simp
    show "cp = (224 + cp div 4096 - 224) * 4096 + (128 + (cp div 64) mod 64 - 128) * 64 + (128 + cp mod 64 - 128)"
      using recompose3 [of cp] by simp
    show "2048 \<le> cp" by (rule assms(1))
    show "\<not> isHighSurrogate cp" by (rule assms(3))
    show "\<not> isLowSurrogate cp" by (rule assms(4))
  qed
  then show ?thesis by (simp add: enc)
qed

lemma decode_four:
  assumes "65536 \<le> cp" and "cp < 1114112"
  shows "nodeUtf8Decode (encodeScalar cp @ bs) = unitsOf cp @ nodeUtf8Decode bs"
proof -
  define b0 :: byte where "b0 = of_nat (240 + cp div 262144)"
  define b1 :: byte where "b1 = of_nat (128 + (cp div 4096) mod 64)"
  define b2 :: byte where "b2 = of_nat (128 + (cp div 64) mod 64)"
  define b3 :: byte where "b3 = of_nat (128 + cp mod 64)"
  have enc: "encodeScalar cp = [b0, b1, b2, b3]"
    using assms by (simp add: encodeScalar_def b0_def b1_def b2_def b3_def)
  have a: "unat b0 = 240 + cp div 262144" unfolding b0_def using assms by (intro unat_byte) arith
  have b: "unat b1 = 128 + (cp div 4096) mod 64" unfolding b1_def by (intro unat_byte) arith
  have c: "unat b2 = 128 + (cp div 64) mod 64" unfolding b2_def by (intro unat_byte) arith
  have d: "unat b3 = 128 + cp mod 64" unfolding b3_def by (intro unat_byte) arith
  have "nodeUtf8Decode (b0 # b1 # b2 # b3 # bs) = unitsOf cp @ nodeUtf8Decode bs"
    using a _ _ b _ _ c _ _ d
  proof (rule decode_four_bytes)
    show "240 \<le> 240 + cp div 262144" by simp
    show "240 + cp div 262144 < 245" using assms by arith
    show "128 \<le> 128 + (cp div 4096) mod 64" by simp
    show "128 + (cp div 4096) mod 64 < 192" by simp
    show "128 \<le> 128 + (cp div 64) mod 64" by simp
    show "128 + (cp div 64) mod 64 < 192" by simp
    show "128 \<le> 128 + cp mod 64" by simp
    show "128 + cp mod 64 < 192" by simp
    show "cp = (240 + cp div 262144 - 240) * 262144 + (128 + (cp div 4096) mod 64 - 128) * 4096
                + (128 + (cp div 64) mod 64 - 128) * 64 + (128 + cp mod 64 - 128)"
      using recompose4 [of cp] by simp
    show "65536 \<le> cp" by (rule assms(1))
    show "cp < 1114112" by (rule assms(2))
  qed
  then show ?thesis by (simp add: enc)
qed

lemma decode_encodeScalar:
  assumes "cp < 1114112" and "\<not> isHighSurrogate cp" and "\<not> isLowSurrogate cp"
  shows "nodeUtf8Decode (encodeScalar cp @ bs) = unitsOf cp @ nodeUtf8Decode bs"
proof -
  consider "cp < 128" | "128 \<le> cp \<and> cp < 2048" | "2048 \<le> cp \<and> cp < 65536" | "65536 \<le> cp"
    by arith
  then show ?thesis
  proof cases
    case 1 then show ?thesis by (rule decode_one)
  next
    case 2 then show ?thesis by (simp add: decode_two)
  next
    case 3 with assms show ?thesis by (simp add: decode_three)
  next
    case 4 with assms show ?thesis by (simp add: decode_four)
  qed
qed

lemma surrogate_offsets:
  assumes "isHighSurrogate u" and "isLowSurrogate l"
  obtains a b where "u = 55296 + a" and "a < 1024" and "l = 56320 + b" and "b < 1024"
proof
  show "u = 55296 + (u - 55296)" using assms(1) by (simp add: isHighSurrogate_def)
  show "u - 55296 < 1024" using assms(1) unfolding isHighSurrogate_def by arith
  show "l = 56320 + (l - 56320)" using assms(2) by (simp add: isLowSurrogate_def)
  show "l - 56320 < 1024" using assms(2) unfolding isLowSurrogate_def by arith
qed

lemma unitsOf_pair:
  assumes "isHighSurrogate u" and "isLowSurrogate l"
  shows "unitsOf (65536 + (u - 55296) * 1024 + (l - 56320)) = [u, l]"
proof -
  from assms obtain a b where "u = 55296 + a" and "a < 1024" and "l = 56320 + b" and "b < 1024"
    by (rule surrogate_offsets)
  then show ?thesis by (simp add: unitsOf_def)
qed

lemma pair_in_range:
  assumes "isHighSurrogate u" and "isLowSurrogate l"
  shows "65536 \<le> 65536 + (u - 55296) * 1024 + (l - 56320)"
    and "65536 + (u - 55296) * 1024 + (l - 56320) < 1114112"
proof -
  from assms obtain a b where "u = 55296 + a" and "a < 1024" and "l = 56320 + b" and "b < 1024"
    by (rule surrogate_offsets)
  then show "65536 + (u - 55296) * 1024 + (l - 56320) < 1114112" by simp
  show "65536 \<le> 65536 + (u - 55296) * 1024 + (l - 56320)" by simp
qed

lemma nodeUtf8_round_trip: "wellFormed us \<Longrightarrow> nodeUtf8Decode (nodeUtf8Encode us) = us"
proof (induction us rule: nodeUtf8Encode.induct)
  case 1
  then show ?case by simp
next
  case (2 u rest)
  show ?case
  proof (cases "isHighSurrogate u")
    case True
    with "2.prems" obtain l rest' where r: "rest = l # rest'" and lo: "isLowSurrogate l"
      and wf: "wellFormed rest'"
      by (cases rest) auto
    from "2.IH"(1) [OF True r lo wf] have ih: "nodeUtf8Decode (nodeUtf8Encode rest') = rest'" .
    show ?thesis
      using True r lo ih
      by (simp add: decode_four [OF pair_in_range [OF True lo]] unitsOf_pair)
  next
    case False
    with "2.prems" have lo: "\<not> isLowSurrogate u" and b: "u < 65536" and wf: "wellFormed rest"
      by auto
    from "2.IH"(4) [OF False lo wf] have ih: "nodeUtf8Decode (nodeUtf8Encode rest) = rest" .
    have d: "nodeUtf8Decode (encodeScalar u @ nodeUtf8Encode rest) = unitsOf u @ nodeUtf8Decode (nodeUtf8Encode rest)"
      using b False lo by (intro decode_encodeScalar) simp_all
    show ?thesis using False lo b ih d by (simp add: unitsOf_def)
  qed
qed

lemma well_formed_plaintext_round_trip:
  assumes "meetsContracts P" and "validateQuerySecret K = None"
    and "length iv = 16" and "length salt = 32"
    and "utf8Encode P = nodeUtf8Encode" and "utf8Decode P = nodeUtf8Decode" and "wellFormed plaintext"
  shows "roundTrip P K iv salt plaintext = Inr plaintext"
  using roundTrip_recodes [OF assms(1-4), of plaintext] assms(5-7)
  by (simp add: nodeUtf8_round_trip)

lemma hexValue_hexDigit: "n < 16 \<Longrightarrow> hexValue (hexDigit n) = n"
  by (auto simp: hexValue_def hexDigit_def isDigit_def code_def)

lemma unhex_hexOf: "unhex (hexOf bs) = bs"
proof (induction bs)
  case Nil
  then show ?case by simp
next
  case (Cons b bs)
  have "unat b div 16 < 16" using unsigned_less [of b, where 'a = nat] by (simp add: less_mult_imp_div_less)
  moreover have "unat b mod 16 < 16" by simp
  ultimately have "hexValue (hexDigit (unat b div 16)) * 16 + hexValue (hexDigit (unat b mod 16)) = unat b"
    by (simp add: hexValue_hexDigit)
  with Cons show ?case by simp
qed

lemma xorCycle_twice: "xorCycle ks i (xorCycle ks i bs) = bs"
  by (induction bs arbitrary: i) (simp_all add: xor.assoc)

lemma standInPrims_meetsContracts: "meetsContracts (standInPrims enc dec)"
  by (simp add: meetsContracts_def standInPrims_def unhex_hexOf xorCycle_twice)

lemma strongSecret_valid: "validateQuerySecret strongSecret = None"
  by (simp add: validateQuerySecret_def strongSecret_def complexityScore_def weakPattern_def
        isLower_def isUpper_def isDigit_def isSpecialChar_def code_def toLowerCase_def)

text \<open>
  Claim C2. Let the primitives meet their contracts (deciphering undoes enciphering;
  decoding undoes encoding for hex and base64), let the secret \<open>K\<close> pass validateQuerySecret,
  and let encryptQuery draw the 16 bytes \<open>iv\<close> and the 32 bytes \<open>salt\<close>. Then the output of
  encryptQuery is the base64 encoding of \<open>iv\<close>, then \<open>salt\<close>, then the ciphertext;
  decryptQuery of it returns the UTF-8 decoding of the UTF-8 encoding of the plaintext,
  which is the plaintext whenever UTF-8 encoding and decoding give the plaintext back; and
  an encryption of the same plaintext with another IV or another salt is a different
  output.
\<close>

theorem envelope_round_trip:
  assumes "meetsContracts P" and "validateQuerySecret K = None"
    and "length iv = 16" and "length salt = 32"
  shows "(\<exists>ct. encryptQuery P (Some K) iv salt text = Inr (base64Encode P (iv @ salt @ ct)))
       \<and> roundTrip P K iv salt text = Inr (utf8Decode P (utf8Encode P text))
       \<and> (utf8Decode P (utf8Encode P text) = text \<longrightarrow> roundTrip P K iv salt text = Inr text)
       \<and> (length iv' = 16 \<and> length salt' = 32 \<and> (iv' \<noteq> iv \<or> salt' \<noteq> salt)
            \<longrightarrow> encryptQuery P (Some K) iv' salt' text \<noteq> encryptQuery P (Some K) iv salt text)"
proof (intro conjI impI)
  have t: "truthy (Some K)" using assms(2) by (rule valid_secret_truthy)
  show "\<exists>ct. encryptQuery P (Some K) iv salt text = Inr (base64Encode P (iv @ salt @ ct))"
    using encryptQuery_layout [OF assms(1) t, of iv salt "text"] by blast
  show r: "roundTrip P K iv salt text = Inr (utf8Decode P (utf8Encode P text))"
    using assms by (rule roundTrip_recodes)
  show "roundTrip P K iv salt text = Inr text" if "utf8Decode P (utf8Encode P text) = text"
    using r that by simp
  show "encryptQuery P (Some K) iv' salt' text \<noteq> encryptQuery P (Some K) iv salt text"
    if "length iv' = 16 \<and> length salt' = 32 \<and> (iv' \<noteq> iv \<or> salt' \<noteq> salt)"
    using that envelopes_differ [OF assms, of iv' salt' "text"] by blast
qed

theorem envelope_round_trip_witness:
  "meetsContracts unitPrims
   \<and> validateQuerySecret strongSecret = None
   \<and> roundTrip unitPrims strongSecret (replicate 16 7) (replicate 32 9) [83, 69, 76, 69, 67, 84, 32, 49]
       = Inr [83, 69, 76, 69, 67, 84, 32, 49]
   \<and> encryptQuery unitPrims (Some strongSecret) (replicate 16 8) (replicate 32 9) [83, 69, 76, 69, 67, 84, 32, 49]
       \<noteq> encryptQuery unitPrims (Some strongSecret) (replicate 16 7) (replicate 32 9) [83, 69, 76, 69, 67, 84, 32, 49]"
proof -
  have m: "meetsContracts unitPrims"
    unfolding unitPrims_def by (rule standInPrims_meetsContracts)
  have u: "utf8Decode unitPrims (utf8Encode unitPrims [83, 69, 76, 69, 67, 84, 32, 49])
             = [83, 69, 76, 69, 67, 84, 32, 49]"
    by (simp add: unitPrims_def standInPrims_def isHighSurrogate_def isLowSurrogate_def
          encodeScalar_def)
  from envelope_round_trip [OF m strongSecret_valid, of "replicate 16 7" "replicate 32 9"
      "[83, 69, 76, 69, 67, 84, 32, 49]" "replicate 16 8" "replicate 32 9"] m strongSecret_valid u
  show ?thesis by simp
qed

text \<open>A plaintext that does not come back: the string of the single code unit D800, an
  unpaired surrogate, comes back as the string of the single code unit FFFD.\<close>

theorem round_trip_replaces_unpaired_surrogate:
  "meetsContracts unitPrims
   \<and> validateQuerySecret strongSecret = None
   \<and> roundTrip unitPrims strongSecret (replicate 16 7) (replicate 32 9) [55296] = Inr [65533]"
proof -
  have m: "meetsContracts unitPrims"
    unfolding unitPrims_def by (rule standInPrims_meetsContracts)
  have u: "utf8Decode unitPrims (utf8Encode unitPrims [55296]) = [65533]"
    by (simp add: unitPrims_def standInPrims_def isHighSurrogate_def isLowSurrogate_def
          replacementBytes_def decodeMulti_def isContinuation_def unitsOf_def Let_def)
  from roundTrip_recodes [OF m strongSecret_valid, of "replicate 16 7" "replicate 32 9" "[55296]"] m
    strongSecret_valid u
  show ?thesis by simp
qed


end
